theory Spec2Isabelle
  imports Complex_Main "HOL-Library.AList"
begin

section \<open>Python values and exceptions\<close>

text \<open>
  The module \<^verbatim>\<open>apps/payments/wise.py\<close> works on decoded JSON: the webhook body
  (\<^verbatim>\<open>request.json\<close>), the statement (\<^verbatim>\<open>munchify(resp.json())\<close>) and the objects of
  the pywisetransfer client (munchified JSON as well). A value is one of Python's JSON
  types. A dict is the list of its items; a dict has each key once, and a lookup takes
  the first item of a key. A finite float is the rational it denotes (NaN and the
  infinities are left out); every float is carried through opaquely, only compared
  with zero. A string is the list of its characters, \<^verbatim>\<open>len\<close> their number.
\<close>

datatype pyval =
    PNone
  | PBool bool
  | PInt int
  | PFloat rat
  | PStr string
  | PList "pyval list"
  | PDict "(string \<times> pyval) list"

text \<open>
  Every \<^verbatim>\<open>raise\<close>, every \<^verbatim>\<open>abort(n)\<close> (it raises werkzeug's HTTPException with
  status n) and every failing builtin is a value: a call returns \<open>Inl\<close> the exception or
  \<open>Inr\<close> its result.
\<close>

datatype pyerror =
    AttributeError
  | TypeError
  | KeyError
  | IndexError
  | ValueError
  | HTTPException nat
  | Exception string
  | ConnectionError
  | JSONDecodeError
  | LibraryError string

text \<open>
  Running one fallible step after another: the first exception ends the sequence, as a
  raise leaves the function.
\<close>

definition ebind :: "'e + 'a \<Rightarrow> ('a \<Rightarrow> 'e + 'b) \<Rightarrow> 'e + 'b" where
  "ebind m f = (case m of Inl e \<Rightarrow> Inl e | Inr x \<Rightarrow> f x)"

text \<open>Truth value testing (\<^verbatim>\<open>if x\<close>, \<^verbatim>\<open>not x\<close>, \<^verbatim>\<open>x or y\<close>).\<close>

fun truthy :: "pyval \<Rightarrow> bool" where
  "truthy PNone = False"
| "truthy (PBool b) = b"
| "truthy (PInt i) = (i \<noteq> 0)"
| "truthy (PFloat r) = (r \<noteq> 0)"
| "truthy (PStr s) = (s \<noteq> [])"
| "truthy (PList xs) = (xs \<noteq> [])"
| "truthy (PDict kvs) = (kvs \<noteq> [])"

text \<open>
  Attribute access \<^verbatim>\<open>v.name\<close>, for the names this module reads (balances, bankDetails,
  type, id, replace, ...): none of them is an attribute of a builtin type, so on a Munch
  it is the key's value, on a Munch without the key and on every other value it raises
  AttributeError.
\<close>

fun py_getattr :: "pyval \<Rightarrow> string \<Rightarrow> pyerror + pyval" where
  "py_getattr (PDict kvs) k = (case map_of kvs k of Some v \<Rightarrow> Inr v | None \<Rightarrow> Inl AttributeError)"
| "py_getattr _ k = Inl AttributeError"

text \<open>\<^verbatim>\<open>v.get(key, default)\<close>: the dict method; no other JSON value has a \<^verbatim>\<open>get\<close>.\<close>

fun py_get :: "pyval \<Rightarrow> string \<Rightarrow> pyval \<Rightarrow> pyerror + pyval" where
  "py_get (PDict kvs) k d = (case map_of kvs k of Some v \<Rightarrow> Inr v | None \<Rightarrow> Inr d)"
| "py_get _ k d = Inl AttributeError"

text \<open>\<^verbatim>\<open>len(v)\<close>.\<close>

fun py_len :: "pyval \<Rightarrow> pyerror + nat" where
  "py_len (PStr s) = Inr (length s)"
| "py_len (PList xs) = Inr (length xs)"
| "py_len (PDict kvs) = Inr (length kvs)"
| "py_len _ = Inl TypeError"

text \<open>
  \<^verbatim>\<open>for x in v\<close>: the elements of a list, the keys of a dict, the characters of a string;
  nothing else here is iterable.
\<close>

fun py_iter :: "pyval \<Rightarrow> pyerror + pyval list" where
  "py_iter (PList xs) = Inr xs"
| "py_iter (PDict kvs) = Inr (map (\<lambda>kv. PStr (fst kv)) kvs)"
| "py_iter (PStr s) = Inr (map (\<lambda>c. PStr [c]) s)"
| "py_iter _ = Inl TypeError"

text \<open>\<^verbatim>\<open>v == "literal"\<close>: only the same string is equal to a string.\<close>

definition py_eq_str :: "pyval \<Rightarrow> string \<Rightarrow> bool" where
  "py_eq_str v s = (v = PStr s)"

text \<open>\<^verbatim>\<open>v + " "\<close> with a string on the right, and \<^verbatim>\<open>s + v\<close> with a string on the left.\<close>

fun py_add_str :: "pyval \<Rightarrow> string \<Rightarrow> pyerror + string" where
  "py_add_str (PStr s) t = Inr (s @ t)"
| "py_add_str _ t = Inl TypeError"

fun str_add_py :: "string \<Rightarrow> pyval \<Rightarrow> pyerror + string" where
  "str_add_py s (PStr t) = Inr (s @ t)"
| "str_add_py s _ = Inl TypeError"

text \<open>\<^verbatim>\<open>sep.join(items)\<close>: every item has to be a string.\<close>

fun str_items :: "pyval list \<Rightarrow> pyerror + string list" where
  "str_items [] = Inr []"
| "str_items (PStr s # vs) = (case str_items vs of Inl e \<Rightarrow> Inl e | Inr ss \<Rightarrow> Inr (s # ss))"
| "str_items (_ # vs) = Inl TypeError"

fun intersperse :: "string \<Rightarrow> string list \<Rightarrow> string" where
  "intersperse sep [] = []"
| "intersperse sep [s] = s"
| "intersperse sep (s # t # ss) = s @ sep @ intersperse sep (t # ss)"

definition py_join :: "string \<Rightarrow> pyval list \<Rightarrow> pyerror + string" where
  "py_join sep vs = (case str_items vs of Inl e \<Rightarrow> Inl e | Inr ss \<Rightarrow> Inr (intersperse sep ss))"

text \<open>
  \<^verbatim>\<open>v.replace(" ", "")\<close>: on a string, the string without its spaces. A list has no such
  attribute; on a Munch the attribute is the key \<^verbatim>\<open>replace\<close>, whose JSON value cannot be
  called.
\<close>

fun py_replace_spaces :: "pyval \<Rightarrow> pyerror + pyval" where
  "py_replace_spaces (PStr s) = Inr (PStr (filter (\<lambda>c. c \<noteq> CHR '' '') s))"
| "py_replace_spaces (PDict kvs) =
     (case map_of kvs ''replace'' of Some v \<Rightarrow> Inl TypeError | None \<Rightarrow> Inl AttributeError)"
| "py_replace_spaces _ = Inl AttributeError"

text \<open>
  \<^verbatim>\<open>v[-8:]\<close>, on what \<^verbatim>\<open>replace\<close> returned (a string): the last eight items, all of
  them when there are fewer.
\<close>

fun py_last8 :: "pyval \<Rightarrow> pyerror + pyval" where
  "py_last8 (PStr s) = Inr (PStr (drop (length s - 8) s))"
| "py_last8 (PList xs) = Inr (PList (drop (length xs - 8) xs))"
| "py_last8 _ = Inl TypeError"

section \<open>The rows of models.payment\<close>

text \<open>
  BankAccount and BankTransaction are declared in \<^verbatim>\<open>models/payment.py\<close>; this module
  sets and reads the columns below. A column holds the Python value it was given. The
  primary key of a row is set by the database, so an object that was only constructed
  has none.
\<close>

record bank_account =
  ba_id :: "int option"
  ba_sort_code :: pyval
  ba_acct_id :: pyval
  ba_currency :: pyval
  ba_active :: bool
  ba_institution :: pyval
  ba_address :: pyval
  ba_swift :: pyval
  ba_iban :: pyval
  ba_borderless_account_id :: pyval

record bank_transaction =
  bt_account_id :: "int option"
  bt_posted :: pyval
  bt_type :: pyval
  bt_amount :: pyval
  bt_payee :: pyval

section \<open>Account discovery: \<^verbatim>\<open>_collect_bank_accounts\<close>\<close>

text \<open>
  Lines 230-236, the \<^verbatim>\<open>try\<close> block: True when the loop goes on to build an account,
  False on each \<^verbatim>\<open>continue\<close> (falsy bankDetails, falsy bankAddress, AttributeError).
\<close>

definition has_bank_address :: "pyval \<Rightarrow> bool" where
  "has_bank_address account =
     (case py_getattr account ''bankDetails'' of
        Inl e \<Rightarrow> False
      | Inr bd \<Rightarrow>
          (if \<not> truthy bd then False
           else (case py_getattr bd ''bankAddress'' of
                   Inl e \<Rightarrow> False
                 | Inr a \<Rightarrow> truthy a)))"

text \<open>Lines 238-246: the address, its items evaluated from left to right.\<close>

definition bank_address :: "pyval \<Rightarrow> pyerror + string" where
  "bank_address account =
     ebind (py_getattr account ''bankDetails'') (\<lambda>bd.
     ebind (py_getattr bd ''bankAddress'') (\<lambda>a.
     ebind (py_getattr a ''addressFirstLine'') (\<lambda>line1.
     ebind (py_getattr a ''city'') (\<lambda>city.
     ebind (py_add_str city '' '') (\<lambda>city_sp.
     ebind (py_getattr a ''postCode'') (\<lambda>post_code.
     ebind (str_add_py city_sp (if truthy post_code then post_code else PStr '''')) (\<lambda>line2.
     ebind (py_getattr a ''country'') (\<lambda>country.
     py_join '', '' [line1, PStr line2, country]))))))))"

text \<open>
  Lines 248-260: \<^verbatim>\<open>sort_code\<close> and \<^verbatim>\<open>account_number\<close>, both None unless the currency of
  the bank details is "GBP".
\<close>

definition routing :: "pyval \<Rightarrow> pyerror + pyval \<times> pyval" where
  "routing bd =
     ebind (py_getattr bd ''currency'') (\<lambda>cur.
     if py_eq_str cur ''GBP'' then
       ebind (py_getattr bd ''bankCode'') (\<lambda>sort_code.
       ebind (py_getattr bd ''accountNumber'') (\<lambda>number.
       ebind (py_len number) (\<lambda>n.
       if n = 8 then Inr (sort_code, number)
       else
         ebind (py_replace_spaces number) (\<lambda>stripped.
         ebind (py_last8 stripped) (\<lambda>account_number.
         Inr (sort_code, account_number))))))
     else Inr (PNone, PNone))"

text \<open>
  The body of the loop for one balance: \<open>Inr None\<close> is \<^verbatim>\<open>continue\<close>, \<open>Inr (Some b)\<close> the
  BankAccount it yields, \<open>Inl e\<close> an exception that ends the generator. The keyword
  arguments of \<^verbatim>\<open>BankAccount(...)\<close> are evaluated in the order written.
\<close>

definition collect_one :: "pyval \<Rightarrow> pyval \<Rightarrow> pyerror + bank_account option" where
  "collect_one borderless_account account =
     (if \<not> has_bank_address account then Inr None
      else
        ebind (bank_address account) (\<lambda>addr.
        ebind (py_getattr account ''bankDetails'') (\<lambda>bd.
        ebind (routing bd) (\<lambda>(sort_code, account_number).
        ebind (py_getattr bd ''currency'') (\<lambda>cur.
        ebind (py_getattr bd ''bankName'') (\<lambda>bank_name.
        ebind (py_get bd ''swift'' PNone) (\<lambda>sw.
        ebind (py_get bd ''iban'' PNone) (\<lambda>ib.
        ebind (py_getattr borderless_account ''id'') (\<lambda>bid.
        Inr (Some \<lparr> ba_id = None, ba_sort_code = sort_code, ba_acct_id = account_number,
                    ba_currency = cur, ba_active = False, ba_institution = bank_name,
                    ba_address = PStr addr, ba_swift = sw, ba_iban = ib,
                    ba_borderless_account_id = bid \<rparr>))))))))))"

text \<open>
  The generator: the accounts it yields, in order, and the exception that ended it, if
  one did. An account yielded before the exception has reached the caller.
\<close>

fun collect_loop :: "pyval \<Rightarrow> pyval list \<Rightarrow> bank_account list \<times> pyerror option" where
  "collect_loop borderless_account [] = ([], None)"
| "collect_loop borderless_account (account # rest) =
     (case collect_one borderless_account account of
        Inl e \<Rightarrow> ([], Some e)
      | Inr None \<Rightarrow> collect_loop borderless_account rest
      | Inr (Some b) \<Rightarrow>
          (case collect_loop borderless_account rest of (bs, e) \<Rightarrow> (b # bs, e)))"

definition collect_bank_accounts :: "pyval \<Rightarrow> bank_account list \<times> pyerror option" where
  "collect_bank_accounts borderless_account =
     (case ebind (py_getattr borderless_account ''balances'') py_iter of
        Inl e \<Rightarrow> ([], Some e)
      | Inr accounts \<Rightarrow> collect_loop borderless_account accounts)"

text \<open>The specification's words: the last eight characters of a string, and a string with its spaces removed.\<close>

definition last_chars :: "nat \<Rightarrow> string \<Rightarrow> string" where
  "last_chars n s = rev (take n (rev s))"

definition without_spaces :: "string \<Rightarrow> string" where
  "without_spaces s = filter (\<lambda>c. c \<noteq> CHR '' '') s"

section \<open>More builtins\<close>

text \<open>
  \<^verbatim>\<open>str.lower()\<close> on ASCII: the letters A-Z (the codes 65-90) become a-z (32 more, which
  is bit 5 set) and every other character stays. (Python also lowers letters outside
  ASCII; the model's strings are ASCII text, as the provider's type names and HTTP
  header names are.)
\<close>

definition lower_char :: "char \<Rightarrow> char" where
  "lower_char c =
     (if 65 \<le> (of_char c :: nat) \<and> (of_char c :: nat) \<le> 90
      then (case c of Char b0 b1 b2 b3 b4 b5 b6 b7 \<Rightarrow> Char b0 b1 b2 b3 b4 True b6 b7)
      else c)"

definition str_lower :: "string \<Rightarrow> string" where
  "str_lower s = map lower_char s"

text \<open>
  \<^verbatim>\<open>v.lower()\<close>: on a string, the lowered string. On a Munch the attribute is the key
  \<^verbatim>\<open>lower\<close>, whose JSON value cannot be called; no other JSON value has the attribute.
\<close>

fun py_lower :: "pyval \<Rightarrow> pyerror + pyval" where
  "py_lower (PStr s) = Inr (PStr (str_lower s))"
| "py_lower (PDict kvs) =
     (case map_of kvs ''lower'' of Some v \<Rightarrow> Inl TypeError | None \<Rightarrow> Inl AttributeError)"
| "py_lower _ = Inl AttributeError"

text \<open>\<^verbatim>\<open>v == 0\<close>: the integer 0, the float 0.0 and False are equal to 0, nothing else.\<close>

fun py_eq_zero :: "pyval \<Rightarrow> bool" where
  "py_eq_zero (PInt i) = (i = 0)"
| "py_eq_zero (PFloat r) = (r = 0)"
| "py_eq_zero (PBool b) = (\<not> b)"
| "py_eq_zero _ = False"

text \<open>
  \<^verbatim>\<open>int(v)\<close>. A string is read as Python reads a decimal literal in ASCII: white space
  around it, one optional sign, digits with single underscores between them. (The
  interpreter's limit on the number of digits is left out.) A float is truncated
  towards zero.
\<close>

definition is_space :: "char \<Rightarrow> bool" where
  "is_space c = ((of_char c :: nat) \<in> {9, 10, 11, 12, 13, 28, 29, 30, 31, 32})"

definition is_digit :: "char \<Rightarrow> bool" where
  "is_digit c = (48 \<le> (of_char c :: nat) \<and> (of_char c :: nat) \<le> 57)"

definition strip :: "string \<Rightarrow> string" where
  "strip s = rev (dropWhile is_space (rev (dropWhile is_space s)))"

fun int_digits :: "bool \<Rightarrow> nat \<Rightarrow> string \<Rightarrow> nat option" where
  "int_digits after_digit acc [] = (if after_digit then Some acc else None)"
| "int_digits after_digit acc (c # cs) =
     (if is_digit c then int_digits True (10 * acc + (of_char c - 48)) cs
      else if c = CHR ''_'' \<and> after_digit then int_digits False acc cs
      else None)"

definition int_of_str :: "string \<Rightarrow> pyerror + int" where
  "int_of_str s =
     (case strip s of
        [] \<Rightarrow> Inl ValueError
      | c # cs \<Rightarrow>
          (if c = CHR ''-'' then
             (case int_digits False 0 cs of None \<Rightarrow> Inl ValueError | Some n \<Rightarrow> Inr (- int n))
           else if c = CHR ''+'' then
             (case int_digits False 0 cs of None \<Rightarrow> Inl ValueError | Some n \<Rightarrow> Inr (int n))
           else
             (case int_digits False 0 (c # cs) of None \<Rightarrow> Inl ValueError | Some n \<Rightarrow> Inr (int n))))"

fun py_int :: "pyval \<Rightarrow> pyerror + int" where
  "py_int (PInt i) = Inr i"
| "py_int (PBool b) = Inr (if b then 1 else 0)"
| "py_int (PFloat r) = Inr (if 0 \<le> r then \<lfloor>r\<rfloor> else \<lceil>r\<rceil>)"
| "py_int (PStr s) = int_of_str s"
| "py_int _ = Inl TypeError"

text \<open>\<^verbatim>\<open>s.encode("ascii")\<close>: the same bytes, or UnicodeEncodeError (a ValueError).\<close>

definition encode_ascii :: "string \<Rightarrow> pyerror + string" where
  "encode_ascii s = (if list_all (\<lambda>c. (of_char c :: nat) < 128) s then Inr s else Inl ValueError)"

text \<open>
  \<^verbatim>\<open>headers[name]\<close> on the headers of a request received (werkzeug) or of a response
  (requests): the name is matched without regard to case, and a header that is not
  there raises KeyError.
\<close>

fun header_lookup :: "(string \<times> string) list \<Rightarrow> string \<Rightarrow> pyerror + string" where
  "header_lookup [] name = Inl KeyError"
| "header_lookup (h # hs) name =
     (if str_lower (fst h) = str_lower name then Inr (snd h) else header_lookup hs name)"

section \<open>The environment and the state\<close>

text \<open>
  What the module calls and does not define is a parameter: the application's
  configuration, the pywisetransfer client (its listings, and the domain and headers of
  its service), the cryptography library, base64, the webhook signature check and the
  text of a value in an f-string. A listing returns its items or raises. Constructing
  the client (\<^verbatim>\<open>pywisetransfer.Client()\<close>) is taken to succeed, except in the health
  check, where its exception is caught with that of the first call.
\<close>

datatype private_key = PrivateKey string

datatype padding = PKCS1v15 | PSS | OAEP

datatype hash_algorithm = SHA1 | SHA256 | SHA512

record env =
  config :: "(string \<times> pyval) list"
  autoflush :: bool
  service_domain :: string
  required_headers :: "(string \<times> string) list"
  format_value :: "pyval \<Rightarrow> string"
  isoformat :: "int \<Rightarrow> string"
  load_pem_private_key :: "pyval \<Rightarrow> pyerror + private_key"
  key_sign :: "private_key \<Rightarrow> string \<Rightarrow> padding \<Rightarrow> hash_algorithm \<Rightarrow> pyerror + string"
  b64encode :: "string \<Rightarrow> string"
  b64decode :: "string \<Rightarrow> pyerror + string"
  verify_signature :: "string \<Rightarrow> string \<Rightarrow> bool"
  users_me :: "string + pyval"
  profiles_list :: "string \<Rightarrow> pyerror + pyval list"
  borderless_accounts_list :: "pyval \<Rightarrow> pyerror + pyval list"
  subscriptions_list :: "pyval \<Rightarrow> pyerror + pyval"
  first_active_account :: "bank_account list \<Rightarrow> pyval \<Rightarrow> pyval \<Rightarrow> pyerror + bank_account option"

text \<open>
  \<open>autoflush\<close> is the setting of the database session (\<^verbatim>\<open>main.db\<close>): when it is on, as
  it is by default, a query first flushes the rows added to the session, so it sees
  them. \<open>load_pem_private_key\<close> stands for opening the file at the configured path,
  reading it and loading the key. \<open>users_me\<close> is \<^verbatim>\<open>pywisetransfer.Client()\<close> followed by
  \<^verbatim>\<open>client.users.me()\<close>: \<open>Inl\<close> the text of the exception one of them raised.

  \<open>first_active_account\<close> is the query of lines 108-112,
  \<^verbatim>\<open>BankAccount.query.filter_by(borderless_account_id=..., currency=..., active=True).first()\<close>,
  on the BankAccount table: the first row it finds, None, or the exception it raises.
  The database evaluates the filter, and the column types of \<^verbatim>\<open>models/payment.py\<close> are
  not part of this module: whether an integer column equals the 64.0 or the "64" of an
  event, and which values the database refuses to compare (a list, an object), is the
  database's answer, not the model's.

  \<^verbatim>\<open>app.config.get(k, d)\<close> and \<^verbatim>\<open>app.config[k]\<close>:
\<close>

definition config_get :: "env \<Rightarrow> string \<Rightarrow> pyval \<Rightarrow> pyval" where
  "config_get env k d = (case map_of (config env) k of Some v \<Rightarrow> v | None \<Rightarrow> d)"

definition config_item :: "env \<Rightarrow> string \<Rightarrow> pyerror + pyval" where
  "config_item env k = (case map_of (config env) k of Some v \<Rightarrow> Inr v | None \<Rightarrow> Inl KeyError)"

text \<open>
  A request sent with \<^verbatim>\<open>requests.get(url, params=params, headers=headers)\<close> and the
  response to it; \<open>resp_json\<close> is what \<^verbatim>\<open>resp.json()\<close> gives: the decoded body, or the
  exception it raises on a body that is not JSON.
\<close>

record request =
  rq_url :: string
  rq_params :: "(string \<times> pyval) list"
  rq_headers :: "(string \<times> string) list"

record response =
  status_code :: int
  resp_headers :: "(string \<times> string) list"
  resp_json :: "pyerror + pyval"

datatype log_level = INFO | WARNING | ERROR

text \<open>
  The state: the two tables, the network and the clock. \<open>incoming\<close> holds what the
  network will answer to the calls of \<^verbatim>\<open>requests.get\<close> still to come, in order (a
  response, or the exception the call raises), so the provider may answer each call as
  it likes; \<open>sent\<close> is the log of the requests made. \<open>clock\<close> is what
  \<^verbatim>\<open>datetime.now()\<close> reads, in microseconds. \<open>logs\<close> keeps each logging call by its level
  and its format string.
\<close>

record world =
  bank_accounts :: "bank_account list"
  bank_transactions :: "bank_transaction list"
  incoming :: "(pyerror + response) list"
  sent :: "request list"
  clock :: int
  logs :: "(log_level \<times> string) list"

definition log_msg :: "log_level \<Rightarrow> string \<Rightarrow> world \<Rightarrow> world" where
  "log_msg level msg w = w\<lparr>logs := logs w @ [(level, msg)]\<rparr>"

text \<open>
  \<^verbatim>\<open>requests.get\<close>: the request is sent, and the network's next answer comes back. With
  nothing left to come the call fails as on a dead connection.
\<close>

definition requests_get :: "request \<Rightarrow> world \<Rightarrow> (pyerror + response) \<times> world" where
  "requests_get rq w =
     (case incoming w of
        [] \<Rightarrow> (Inl ConnectionError, w\<lparr>sent := sent w @ [rq]\<rparr>)
      | r # rs \<Rightarrow> (r, w\<lparr>incoming := rs, sent := sent w @ [rq]\<rparr>))"

section \<open>The statement fetcher: \<^verbatim>\<open>wise_statement\<close>\<close>

text \<open>
  Line 184: is the response a 403 whose 2FA result is "REJECTED"? The header is read
  only on a 403 (\<^verbatim>\<open>and\<close> stops at a false left side) and raises KeyError when it is
  missing.
\<close>

definition needs_2fa :: "response \<Rightarrow> pyerror + bool" where
  "needs_2fa resp =
     (if status_code resp = 403 then
        ebind (header_lookup (resp_headers resp) ''X-2FA-Approval-Result'') (\<lambda>r.
        Inr (r = ''REJECTED''))
      else Inr False)"

text \<open>
  Lines 185-192: the challenge is read from the response, the key loaded, the challenge
  signed, and the headers of the second request are the first one's with the signature
  and the challenge set (a key already there keeps its place, as in a dict).
\<close>

definition sign_challenge ::
  "env \<Rightarrow> response \<Rightarrow> (string \<times> string) list \<Rightarrow> pyerror + (string \<times> string) list" where
  "sign_challenge env resp headers =
     ebind (header_lookup (resp_headers resp) ''X-2FA-Approval'') (\<lambda>challenge.
     ebind (config_item env ''TRANSFERWISE_PRIVATE_KEY'') (\<lambda>path.
     ebind (load_pem_private_key env path) (\<lambda>key.
     ebind (encode_ascii challenge) (\<lambda>message.
     ebind (key_sign env key message PKCS1v15 SHA256) (\<lambda>signature.
     Inr (AList.update ''X-2FA-Approval'' challenge
           (AList.update ''X-Signature'' (b64encode env signature) headers)))))))"

text \<open>
  Lines 196-199: the check of the last response (\<^verbatim>\<open>or\<close> reads the header only on a
  200) and the decoded body; \<^verbatim>\<open>munchify\<close> changes no item of it.
\<close>

definition statement_payload :: "response \<Rightarrow> pyerror + pyval" where
  "statement_payload resp =
     (if status_code resp \<noteq> 200 then Inl (Exception ''Error fetching statement'')
      else
        ebind (header_lookup (resp_headers resp) ''X-2FA-Approval-Result'') (\<lambda>r.
        if r \<noteq> ''APPROVED'' then Inl (Exception ''Error fetching statement'')
        else resp_json resp))"

definition statement_url :: "env \<Rightarrow> pyval \<Rightarrow> pyval \<Rightarrow> string" where
  "statement_url env profile_id account_id =
     service_domain env @ ''/v3/profiles/'' @ format_value env profile_id @
     ''/borderless-accounts/'' @ format_value env account_id @ ''/statement.json''"

text \<open>Lines 176-182: the request, given the headers it is sent with.\<close>

definition statement_request ::
  "env \<Rightarrow> pyval \<Rightarrow> pyval \<Rightarrow> pyval \<Rightarrow> pyval \<Rightarrow> pyval \<Rightarrow> (string \<times> string) list \<Rightarrow> request" where
  "statement_request env profile_id account_id currency interval_start interval_end headers =
     \<lparr> rq_url = statement_url env profile_id account_id,
       rq_params = [(''currency'', currency), (''intervalStart'', interval_start),
                    (''intervalEnd'', interval_end)],
       rq_headers = headers \<rparr>"

definition wise_statement ::
  "env \<Rightarrow> pyval \<Rightarrow> pyval \<Rightarrow> pyval \<Rightarrow> pyval \<Rightarrow> pyval \<Rightarrow> world \<Rightarrow> (pyerror + pyval) \<times> world" where
  "wise_statement env profile_id account_id currency interval_start interval_end w =
     (let headers = required_headers env;
          rq = statement_request env profile_id account_id currency interval_start interval_end
      in
        case requests_get (rq headers) w of
          (Inl e, w1) \<Rightarrow> (Inl e, w1)
        | (Inr resp, w1) \<Rightarrow>
            (case needs_2fa resp of
               Inl e \<Rightarrow> (Inl e, w1)
             | Inr False \<Rightarrow> (statement_payload resp, w1)
             | Inr True \<Rightarrow>
                 (case sign_challenge env resp headers of
                    Inl e \<Rightarrow> (Inl e, w1)
                  | Inr headers2 \<Rightarrow>
                      (case requests_get (rq headers2) w1 of
                         (Inl e, w2) \<Rightarrow> (Inl e, w2)
                       | (Inr resp2, w2) \<Rightarrow> (statement_payload resp2, w2)))))"

text \<open>
  The specification's words: a response that demands the signed challenge (a 403 whose
  2FA result is "REJECTED"), and a response that is approved (a 200 whose 2FA result
  is "APPROVED").
\<close>

definition challenged :: "response \<Rightarrow> bool" where
  "challenged resp =
     (status_code resp = 403 \<and>
      header_lookup (resp_headers resp) ''X-2FA-Approval-Result'' = Inr ''REJECTED'')"

definition approved :: "response \<Rightarrow> bool" where
  "approved resp =
     (status_code resp = 200 \<and>
      header_lookup (resp_headers resp) ''X-2FA-Approval-Result'' = Inr ''APPROVED'')"

section \<open>The balance-credited handler: \<^verbatim>\<open>wise_balance_credit\<close>\<close>

text \<open>
  \<^verbatim>\<open>event.get("data", {}).get("resource", {}).get(k)\<close> and
  \<^verbatim>\<open>event.get("data", {}).get(k)\<close>: a value on the way that is not a dict has no \<^verbatim>\<open>get\<close>.
\<close>

definition resource_field :: "pyval \<Rightarrow> string \<Rightarrow> pyerror + pyval" where
  "resource_field event k =
     ebind (py_get event ''data'' (PDict [])) (\<lambda>d.
     ebind (py_get d ''resource'' (PDict [])) (\<lambda>r.
     py_get r k PNone))"

definition data_field :: "pyval \<Rightarrow> string \<Rightarrow> pyerror + pyval" where
  "data_field event k = ebind (py_get event ''data'' (PDict [])) (\<lambda>d. py_get d k PNone)"

text \<open>
  Lines 145-150: the first row of BankTransaction with this natural key. The rows this
  module writes hold the values it later queries with; a column and the value it is
  compared with are equal when they are the same value.
\<close>

definition find_transaction ::
  "int option \<Rightarrow> pyval \<Rightarrow> pyval \<Rightarrow> pyval \<Rightarrow> bank_transaction list \<Rightarrow> bank_transaction option" where
  "find_transaction account_id posted ty payee rows =
     List.find (\<lambda>t. bt_account_id t = account_id \<and> bt_posted t = posted \<and>
                     bt_type t = ty \<and> bt_payee t = payee) rows"

text \<open>
  Lines 140-150, what the query is made of: \<open>Inr None\<close> for an entry that is not a
  CREDIT (\<^verbatim>\<open>continue\<close>), else the posted date, the lower-cased detail type and the
  payment reference.
\<close>

definition credit_key :: "pyval \<Rightarrow> pyerror + (pyval \<times> pyval \<times> pyval) option" where
  "credit_key transaction =
     ebind (py_getattr transaction ''type'') (\<lambda>ty.
     if \<not> py_eq_str ty ''CREDIT'' then Inr None
     else
       ebind (py_getattr transaction ''date'') (\<lambda>posted.
       ebind (py_getattr transaction ''details'') (\<lambda>details.
       ebind (py_getattr details ''type'') (\<lambda>detail_type.
       ebind (py_lower detail_type) (\<lambda>lowered.
       ebind (py_getattr details ''paymentReference'') (\<lambda>payee.
       Inr (Some (posted, lowered, payee))))))))"

text \<open>
  The body of the loop for one statement entry, against the rows the query sees:
  \<open>Inr None\<close> is \<^verbatim>\<open>continue\<close>, \<open>Inr (Some txn)\<close> the row constructed and added to the
  session.
\<close>

definition reconcile_one ::
  "int option \<Rightarrow> pyval \<Rightarrow> bank_transaction list \<Rightarrow> pyerror + bank_transaction option" where
  "reconcile_one account_id transaction visible =
     ebind (credit_key transaction) (\<lambda>k.
     case k of
       None \<Rightarrow> Inr None
     | Some (posted, lowered, payee) \<Rightarrow>
         (case find_transaction account_id posted lowered payee visible of
            Some txn \<Rightarrow> Inr None
          | None \<Rightarrow>
              ebind (py_getattr transaction ''amount'') (\<lambda>amount.
              ebind (py_getattr amount ''value'') (\<lambda>v.
              Inr (Some \<lparr> bt_account_id = account_id, bt_posted = posted, bt_type = lowered,
                          bt_amount = v, bt_payee = payee \<rparr>)))))"

text \<open>
  Lines 138-164, the loop: \<open>table\<close> is the BankTransaction table, \<open>txns\<close> the rows added
  to the session so far. A query sees the table, and the session's rows when the
  session flushes before a query.
\<close>

fun reconcile ::
  "bool \<Rightarrow> int option \<Rightarrow> pyval list \<Rightarrow> bank_transaction list \<Rightarrow> bank_transaction list \<Rightarrow>
   pyerror + bank_transaction list" where
  "reconcile flush account_id [] table txns = Inr txns"
| "reconcile flush account_id (transaction # rest) table txns =
     (case reconcile_one account_id transaction (table @ (if flush then txns else [])) of
        Inl e \<Rightarrow> Inl e
      | Inr None \<Rightarrow> reconcile flush account_id rest table txns
      | Inr (Some txn) \<Rightarrow> reconcile flush account_id rest table (txns @ [txn]))"

text \<open>
  Lines 137-169, the reconciliation: the loop over \<^verbatim>\<open>statement.transactions\<close>, then
  \<^verbatim>\<open>db.session.commit()\<close> and the 204. The rows added to the session reach the table at
  the commit; an exception before it leaves the handler with nothing committed, and the
  session, which lives as long as the request, is dropped with its rows.
\<close>

definition statement_entries :: "pyval \<Rightarrow> pyerror + pyval list" where
  "statement_entries statement = ebind (py_getattr statement ''transactions'') py_iter"

definition import_credits ::
  "env \<Rightarrow> bank_account \<Rightarrow> pyval \<Rightarrow> world \<Rightarrow> (pyerror + string \<times> nat) \<times> world" where
  "import_credits env bank_account statement w =
     (case statement_entries statement of
        Inl e \<Rightarrow> (Inl e, w)
      | Inr entries \<Rightarrow>
          (case reconcile (autoflush env) (ba_id bank_account) entries (bank_transactions w) [] of
             Inl e \<Rightarrow> (Inl e, w)
           | Inr txns \<Rightarrow>
               (Inr ('''', 204),
                log_msg INFO ''Imported %s transactions''
                  (w\<lparr>bank_transactions := bank_transactions w @ txns\<rparr>))))"

text \<open>
  Lines 117-127: the statement of the seven days up to now. The clock counts
  microseconds; \<^verbatim>\<open>isoformat()\<close> is a parameter.
\<close>

definition fetch_statement ::
  "env \<Rightarrow> pyval \<Rightarrow> pyval \<Rightarrow> pyval \<Rightarrow> world \<Rightarrow> (pyerror + pyval) \<times> world" where
  "fetch_statement env profile_id borderless_account_id currency w =
     (let interval_end = clock w;
          interval_start = interval_end - 7 * 86400 * 1000000
      in wise_statement env profile_id borderless_account_id currency
           (PStr (isoformat env interval_start @ ''Z''))
           (PStr (isoformat env interval_end @ ''Z'')) w)"

text \<open>
  Lines 107-169: the account is looked up, the statement fetched, and the credits
  imported. The lookup is the database's (\<open>first_active_account\<close>); an exception of
  it leaves the handler. A fetch that raises is logged and answered with 204. The row
  lock of line 135 orders concurrent requests and changes nothing in one.
\<close>

definition credit_account ::
  "env \<Rightarrow> pyval \<Rightarrow> pyval \<Rightarrow> pyval \<Rightarrow> world \<Rightarrow> (pyerror + string \<times> nat) \<times> world" where
  "credit_account env profile_id borderless_account_id currency w =
     (case first_active_account env (bank_accounts w) borderless_account_id currency of
        Inl e \<Rightarrow> (Inl e, w)
      | Inr None \<Rightarrow> (Inr ('''', 204), log_msg WARNING ''Could not find bank account'' w)
      | Inr (Some bank_account) \<Rightarrow>
          (case fetch_statement env profile_id borderless_account_id currency w of
             (Inl e, w1) \<Rightarrow> (Inr ('''', 204), log_msg ERROR ''Could not fetch statement'' w1)
           | (Inr statement, w1) \<Rightarrow> import_credits env bank_account statement w1))"

text \<open>
  Lines 79-106: the three fields of the event, each \<^verbatim>\<open>abort(400)\<close> when it is None, and
  between the group id and the currency the return for the group id 0.
\<close>

definition wise_balance_credit ::
  "env \<Rightarrow> pyval \<Rightarrow> pyval \<Rightarrow> world \<Rightarrow> (pyerror + string \<times> nat) \<times> world" where
  "wise_balance_credit env event_type event w =
     (case resource_field event ''profile_id'' of
        Inl e \<Rightarrow> (Inl e, w)
      | Inr profile_id \<Rightarrow>
          (if profile_id = PNone then
             (Inl (HTTPException 400), log_msg ERROR ''Missing profile_id in Wise webhook'' w)
           else
             (case resource_field event ''id'' of
                Inl e \<Rightarrow> (Inl e, w)
              | Inr borderless_account_id \<Rightarrow>
                  (if borderless_account_id = PNone then
                     (Inl (HTTPException 400),
                      log_msg ERROR ''Missing borderless_account_id in Wise webhook'' w)
                   else if py_eq_zero borderless_account_id then (Inr ('''', 204), w)
                   else
                     (case data_field event ''currency'' of
                        Inl e \<Rightarrow> (Inl e, w)
                      | Inr currency \<Rightarrow>
                          (if currency = PNone then
                             (Inl (HTTPException 400),
                              log_msg ERROR ''Missing currency in Wise webhook'' w)
                           else
                             credit_account env profile_id borderless_account_id currency
                               (log_msg INFO
                                  ''Checking Wise details for borderless_account_id %s and currency %s''
                                  w)))))))"

text \<open>The specification's words: the natural key of a row (account, posted date, type, payee).\<close>

definition row_key :: "bank_transaction \<Rightarrow> int option \<times> pyval \<times> pyval \<times> pyval" where
  "row_key t = (bt_account_id t, bt_posted t, bt_type t, bt_payee t)"

section \<open>The webhook receiver: \<^verbatim>\<open>wise_webhook\<close>\<close>

text \<open>
  The request as the view reads it: the raw body, the headers, and \<^verbatim>\<open>request.json\<close>
  (the decoded body, None, or the exception Flask raises on a body it cannot decode).
\<close>

record flask_request =
  request_data :: string
  request_headers :: "(string \<times> string) list"
  request_json :: "pyerror + pyval"

type_synonym handler = "pyval \<Rightarrow> pyval \<Rightarrow> world \<Rightarrow> (pyerror + string \<times> nat) \<times> world"

text \<open>
  Lines 41-47, the \<^verbatim>\<open>try\<close> block: the signature header is there and decodes as base64,
  and the body is JSON and not null. Any exception in it is answered with 400.
\<close>

definition parse_request :: "env \<Rightarrow> flask_request \<Rightarrow> pyerror + string \<times> pyval" where
  "parse_request env request =
     ebind (header_lookup (request_headers request) ''X-Signature'') (\<lambda>signature.
     ebind (b64decode env signature) (\<lambda>decoded.
     ebind (request_json request) (\<lambda>body.
     if body = PNone then Inl ValueError else Inr (signature, body))))"

text \<open>
  \<^verbatim>\<open>webhook_handlers[event_type]\<close>: the registry has strings for keys; a list or a dict
  cannot be hashed (TypeError), every other value is a key that is not there.
\<close>

fun handler_item :: "(string \<rightharpoonup> 'h) \<Rightarrow> pyval \<Rightarrow> pyerror + 'h" where
  "handler_item handlers (PStr s) = (case handlers s of Some h \<Rightarrow> Inr h | None \<Rightarrow> Inl KeyError)"
| "handler_item handlers (PList xs) = Inl TypeError"
| "handler_item handlers (PDict kvs) = Inl TypeError"
| "handler_item handlers v = Inl KeyError"

definition wise_webhook ::
  "env \<Rightarrow> (string \<rightharpoonup> handler) \<Rightarrow> flask_request \<Rightarrow> world \<Rightarrow> (pyerror + string \<times> nat) \<times> world" where
  "wise_webhook env handlers request w0 =
     (let w = log_msg INFO ''Received Wise webhook request: data=%r headers=%r'' w0 in
      case parse_request env request of
        Inl e \<Rightarrow>
          (Inl (HTTPException 400), log_msg ERROR ''Unable to parse Wise webhook request'' w)
      | Inr (signature, body) \<Rightarrow>
          (if \<not> verify_signature env (request_data request) signature then
             (Inl (HTTPException 400), log_msg ERROR ''Error verifying Wise webhook signature'' w)
           else
             (case py_get body ''schema_version'' PNone of
                Inl e \<Rightarrow> (Inl e, w)
              | Inr schema_version \<Rightarrow>
                  (if schema_version \<noteq> PStr ''2.0.0'' then
                     (Inl (HTTPException 500),
                      log_msg WARNING ''Unsupported Wise schema version %s'' w)
                   else
                     (case py_get body ''event_type'' PNone of
                        Inl e \<Rightarrow> (Inl e, w)
                      | Inr event_type \<Rightarrow>
                          (case handler_item handlers event_type of
                             Inl e \<Rightarrow>
                               (if e = KeyError then
                                  (Inl (HTTPException 500),
                                   log_msg WARNING ''Unhandled Wise webhook event type %s'' w)
                                else (Inl e, w))
                           | Inr handler \<Rightarrow>
                               (case handler event_type body w of
                                  (Inl e, w') \<Rightarrow>
                                    (Inl (HTTPException 500),
                                     log_msg ERROR ''Unhandled exception during Wise webhook'' w')
                                | (Inr r, w') \<Rightarrow> (Inr r, w'))))))))"

text \<open>The registry as the decorator of line 78 leaves it.\<close>

definition webhook_handlers :: "env \<Rightarrow> (string \<rightharpoonup> handler)" where
  "webhook_handlers env = [''balances#credit'' \<mapsto> wise_balance_credit env]"

text \<open>
  The status the sender of the webhook gets: that of the response returned; Flask
  answers an HTTPException with its status, and any other exception that leaves the
  view with 500.
\<close>

fun http_status :: "pyerror + string \<times> nat \<Rightarrow> nat" where
  "http_status (Inr (body, status)) = status"
| "http_status (Inl (HTTPException n)) = n"
| "http_status (Inl e) = 500"

section \<open>The business profile: \<^verbatim>\<open>wise_business_profile\<close>\<close>

text \<open>Line 216: \<^verbatim>\<open>list(filter(lambda p: p.type == "business", profiles))\<close>.\<close>

fun filter_business :: "pyval list \<Rightarrow> pyerror + pyval list" where
  "filter_business [] = Inr []"
| "filter_business (p # ps) =
     (case py_getattr p ''type'' of
        Inl e \<Rightarrow> Inl e
      | Inr t \<Rightarrow>
          (case filter_business ps of
             Inl e \<Rightarrow> Inl e
           | Inr rest \<Rightarrow> Inr (if py_eq_str t ''business'' then p # rest else rest)))"

text \<open>Line 220: \<^verbatim>\<open>profiles[0]\<close>.\<close>

definition first_item :: "'a list \<Rightarrow> pyerror + 'a" where
  "first_item xs = (case xs of [] \<Rightarrow> Inl IndexError | x # rest \<Rightarrow> Inr x)"

definition wise_business_profile :: "env \<Rightarrow> pyerror + pyval" where
  "wise_business_profile env =
     (if truthy (config_get env ''TRANSFERWISE_PROFILE_ID'' PNone) then
        ebind (config_item env ''TRANSFERWISE_PROFILE_ID'') (\<lambda>v.
        ebind (py_int v) (\<lambda>i.
        ebind (borderless_accounts_list env (PInt i)) (\<lambda>borderless_accounts.
        if length borderless_accounts = 0 then
          Inl (Exception ''Provided TRANSFERWISE_PROFILE_ID has no accoutns'')
        else Inr (PInt i))))
      else
        ebind (profiles_list env ''business'') (\<lambda>listed.
        ebind (filter_business listed) (\<lambda>profiles.
        if length profiles > 1 then Inl (Exception ''Multiple business profiles found'')
        else
          ebind (first_item profiles) (\<lambda>p.
          py_getattr p ''id''))))"

section \<open>Account discovery: \<^verbatim>\<open>wise_retrieve_accounts\<close>\<close>

fun retrieve_loop :: "pyval list \<Rightarrow> bank_account list \<times> pyerror option" where
  "retrieve_loop [] = ([], None)"
| "retrieve_loop (borderless_account # rest) =
     (case collect_bank_accounts borderless_account of
        (bs, Some e) \<Rightarrow> (bs, Some e)
      | (bs, None) \<Rightarrow> (case retrieve_loop rest of (bs', e) \<Rightarrow> (bs @ bs', e)))"

definition wise_retrieve_accounts :: "env \<Rightarrow> bank_account list \<times> pyerror option" where
  "wise_retrieve_accounts env =
     (case wise_business_profile env of
        Inl e \<Rightarrow> ([], Some e)
      | Inr business_profile \<Rightarrow>
          (if \<not> truthy business_profile then ([], None)
           else
             (case borderless_accounts_list env business_profile of
                Inl e \<Rightarrow> ([], Some e)
              | Inr borderless_accounts \<Rightarrow> retrieve_loop borderless_accounts)))"

section \<open>The health check: \<^verbatim>\<open>wise_validate\<close>\<close>

text \<open>The pair each probe appends to the report.\<close>

definition environment_probe :: "env \<Rightarrow> bool \<times> string" where
  "environment_probe env =
     (let e = config_get env ''TRANSFERWISE_ENVIRONMENT'' PNone in
      if py_eq_str e ''sandbox'' then (True, ''Sandbox environment being used'')
      else if py_eq_str e ''live'' then (True, ''Live environment being used'')
      else (False, ''No environment configured''))"

definition token_probe :: "env \<Rightarrow> pyerror + bool \<times> string" where
  "token_probe env =
     ebind (py_len (config_get env ''TRANSFERWISE_API_TOKEN'' (PStr ''''))) (\<lambda>n.
     if n = 36 then Inr (True, ''Access token set'')
     else Inr (False, ''Access token not set''))"

definition connection_probe :: "env \<Rightarrow> bool \<times> string" where
  "connection_probe env =
     (case users_me env of
        Inr me \<Rightarrow> (True, ''Connection to Wise API succeeded'')
      | Inl msg \<Rightarrow> (False, ''Unable to connect to Wise: '' @ msg))"

definition profile_probe :: "pyval \<Rightarrow> bool \<times> string" where
  "profile_probe business_profile =
     (if truthy business_profile then (True, ''Wise business profile exists'')
      else (False, ''Wise business profile does not exist''))"

definition webhooks_probe :: "pyval \<Rightarrow> bool \<times> string" where
  "webhooks_probe webhooks =
     (if truthy webhooks then (True, ''Webhook event subscriptions are present'')
      else (False, ''Webhook event subscriptions are not present''))"

text \<open>
  The report is built by appending; the first three probes return it when they fail.
  An exception of \<^verbatim>\<open>len\<close>, of \<^verbatim>\<open>wise_business_profile\<close> or of the subscription listing
  leaves the function.
\<close>

definition wise_validate :: "env \<Rightarrow> pyerror + (bool \<times> string) list" where
  "wise_validate env =
     (let result = [environment_probe env] in
      if \<not> fst (environment_probe env) then Inr result
      else
        ebind (token_probe env) (\<lambda>token.
        let result = result @ [token] in
        if \<not> fst token then Inr result
        else
          (let connection = connection_probe env;
               result = result @ [connection]
           in
             if \<not> fst connection then Inr result
             else
               ebind (wise_business_profile env) (\<lambda>business_profile.
               let result = result @ [profile_probe business_profile] in
               ebind (subscriptions_list env business_profile) (\<lambda>webhooks.
               Inr (result @ [webhooks_probe webhooks]))))))"

section \<open>Sample inputs\<close>

definition example_bank_address :: pyval where
  "example_bank_address = PDict
     [(''addressFirstLine'', PStr ''56 Shoreditch High Street''), (''city'', PStr ''London''),
      (''postCode'', PStr ''E1 6JJ''), (''country'', PStr ''United Kingdom'')]"

definition example_gbp_balance :: "string \<Rightarrow> pyval" where
  "example_gbp_balance number = PDict
     [(''currency'', PStr ''GBP''),
      (''bankDetails'', PDict
         [(''currency'', PStr ''GBP''), (''bankCode'', PStr ''23-14-70''),
          (''accountNumber'', PStr number), (''bankName'', PStr ''Wise''),
          (''bankAddress'', example_bank_address)])]"

definition example_eur_balance :: pyval where
  "example_eur_balance = PDict
     [(''currency'', PStr ''EUR''),
      (''bankDetails'', PDict
         [(''currency'', PStr ''EUR''), (''bankCode'', PStr ''TRWIBEB1XXX''),
          (''accountNumber'', PStr ''BE12 3456 7890 1234''), (''bankName'', PStr ''Wise''),
          (''swift'', PStr ''TRWIBEB1XXX''), (''iban'', PStr ''BE12 3456 7890 1234''),
          (''bankAddress'', example_bank_address)])]"

definition example_borderless_account :: "pyval list \<Rightarrow> pyval" where
  "example_borderless_account balances = PDict [(''id'', PInt 64), (''balances'', PList balances)]"

text \<open>
  A sample environment: a live configuration with a token of 36 characters, a provider
  that lists one business profile with two subscriptions, and stand-ins for the
  libraries.
\<close>

definition example_profile :: "int \<Rightarrow> pyval" where
  "example_profile i = PDict [(''id'', PInt i), (''type'', PStr ''business'')]"

text \<open>
  A sample database: a column matches the value it is compared with when both are the
  same value, and no comparison is refused.
\<close>

definition example_query ::
  "bank_account list \<Rightarrow> pyval \<Rightarrow> pyval \<Rightarrow> pyerror + bank_account option" where
  "example_query rows borderless_account_id currency =
     Inr (List.find (\<lambda>b. ba_borderless_account_id b = borderless_account_id \<and>
                          ba_currency b = currency \<and> ba_active b) rows)"

definition example_env :: env where
  "example_env =
     \<lparr> config = [(''TRANSFERWISE_ENVIRONMENT'', PStr ''live''),
                 (''TRANSFERWISE_API_TOKEN'', PStr ''0123456789abcdef0123456789abcdef0123''),
                 (''TRANSFERWISE_PRIVATE_KEY'', PStr ''wise.pem'')],
       autoflush = True,
       service_domain = ''https://api.transferwise.com'',
       required_headers = [(''Authorization'', ''Bearer 0123'')],
       format_value = (\<lambda>v. case v of PStr s \<Rightarrow> s | PInt i \<Rightarrow> (if i = 12 then ''12'' else ''64'') | _ \<Rightarrow> ''None''),
       isoformat = (\<lambda>t. ''2024-01-08T09:30:00''),
       load_pem_private_key = (\<lambda>path. if path = PStr ''wise.pem'' then Inr (PrivateKey ''k'') else Inl (LibraryError ''no such file'')),
       key_sign = (\<lambda>key message pad alg. Inr (''sig:'' @ message)),
       b64encode = (\<lambda>s. ''b64:'' @ s),
       b64decode = (\<lambda>s. Inr s),
       verify_signature = (\<lambda>body signature. signature = ''good''),
       users_me = Inr (PDict [(''id'', PInt 7)]),
       profiles_list = (\<lambda>t. Inr [example_profile 12]),
       borderless_accounts_list = (\<lambda>p. Inr [example_borderless_account [example_eur_balance]]),
       subscriptions_list = (\<lambda>p. Inr (PList [PDict [(''id'', PStr ''s1'')], PDict [(''id'', PStr ''s2'')]])),
       first_active_account = example_query \<rparr>"

definition example_env_no_token :: env where
  "example_env_no_token = example_env\<lparr>config := [(''TRANSFERWISE_ENVIRONMENT'', PStr ''live'')]\<rparr>"

definition example_env_personal :: env where
  "example_env_personal =
     example_env\<lparr>profiles_list :=
       (\<lambda>t. Inr [PDict [(''id'', PInt 11), (''type'', PStr ''personal'')]])\<rparr>"

definition example_env_profile_zero :: env where
  "example_env_profile_zero = example_env\<lparr>profiles_list := (\<lambda>t. Inr [example_profile 0])\<rparr>"

text \<open>
  A sample state: one active GBP account of the borderless account 64, no transaction
  yet, and a network with nothing to answer.
\<close>

definition example_account :: bank_account where
  "example_account =
     \<lparr> ba_id = Some 1, ba_sort_code = PStr ''23-14-70'', ba_acct_id = PStr ''31926819'',
       ba_currency = PStr ''GBP'', ba_active = True, ba_institution = PStr ''Wise'',
       ba_address = PStr ''56 Shoreditch High Street, London E1 6JJ, United Kingdom'',
       ba_swift = PNone, ba_iban = PNone, ba_borderless_account_id = PInt 64 \<rparr>"

definition example_world :: world where
  "example_world =
     \<lparr> bank_accounts = [example_account], bank_transactions = [], incoming = [], sent = [],
       clock = 1704706200000000, logs = [] \<rparr>"

text \<open>A credit event, given its resource and its currency (None leaves the currency out).\<close>

definition example_event :: "(string \<times> pyval) list \<Rightarrow> pyval \<Rightarrow> pyval" where
  "example_event resource currency =
     PDict [(''schema_version'', PStr ''2.0.0''), (''event_type'', PStr ''balances#credit''),
            (''data'', PDict ((''resource'', PDict resource) #
                              (if currency = PNone then [] else [(''currency'', currency)])))]"

definition example_request :: "pyval \<Rightarrow> flask_request" where
  "example_request body =
     \<lparr> request_data = ''{...}'', request_headers = [(''X-Signature'', ''good'')],
       request_json = Inr body \<rparr>"

text \<open>
  Sample responses of the statement endpoint: the 2FA challenge, an approved statement
  with one CREDIT and one DEBIT entry, a 503 without 2FA headers, and an approved
  response whose body is not JSON.
\<close>

definition example_challenge :: response where
  "example_challenge =
     \<lparr> status_code = 403,
       resp_headers = [(''x-2fa-approval-result'', ''REJECTED''), (''x-2fa-approval'', ''c0ffee'')],
       resp_json = Inl JSONDecodeError \<rparr>"

definition example_credit :: pyval where
  "example_credit = PDict
     [(''type'', PStr ''CREDIT''), (''date'', PStr ''2024-01-01''),
      (''amount'', PDict [(''value'', PFloat 50), (''currency'', PStr ''GBP'')]),
      (''details'', PDict [(''type'', PStr ''DEPOSIT''), (''paymentReference'', PStr ''INV123'')])]"

definition example_debit :: pyval where
  "example_debit = PDict
     [(''type'', PStr ''DEBIT''), (''date'', PStr ''2024-01-02''),
      (''amount'', PDict [(''value'', PFloat (-5)), (''currency'', PStr ''GBP'')]),
      (''details'', PDict [(''type'', PStr ''CARD'')])]"

definition example_statement :: pyval where
  "example_statement = PDict [(''transactions'', PList [example_credit, example_debit, example_credit])]"

definition example_approved :: response where
  "example_approved =
     \<lparr> status_code = 200, resp_headers = [(''X-2FA-Approval-Result'', ''APPROVED'')],
       resp_json = Inr example_statement \<rparr>"

definition example_unavailable :: response where
  "example_unavailable =
     \<lparr> status_code = 503, resp_headers = [], resp_json = Inl JSONDecodeError \<rparr>"

definition example_not_json :: response where
  "example_not_json =
     \<lparr> status_code = 200, resp_headers = [(''X-2FA-Approval-Result'', ''APPROVED'')],
       resp_json = Inl JSONDecodeError \<rparr>"

text \<open>The row that the sample statement's CREDIT entry becomes for the sample account.\<close>

definition example_row :: bank_transaction where
  "example_row =
     \<lparr> bt_account_id = Some 1, bt_posted = PStr ''2024-01-01'', bt_type = PStr ''deposit'',
       bt_amount = PFloat 50, bt_payee = PStr ''INV123'' \<rparr>"

section \<open>Sequencing\<close>

lemma ebind_Inl [simp]: "ebind (Inl e) f = Inl e"
  by (simp add: ebind_def)

lemma ebind_Inr [simp]: "ebind (Inr x) f = f x"
  by (simp add: ebind_def)

lemma ebind_eq_Inr: "ebind m f = Inr y \<longleftrightarrow> (\<exists>x. m = Inr x \<and> f x = Inr y)"
  by (cases m) simp_all

text \<open>Lowering a capital letter adds 32 to its code.\<close>

lemma lower_char_code:
  "(of_char (lower_char c) :: nat) =
     (if 65 \<le> (of_char c :: nat) \<and> (of_char c :: nat) \<le> 90 then of_char c + 32 else of_char c)"
proof (cases c)
  case (Char b0 b1 b2 b3 b4 b5 b6 b7)
  then show ?thesis
    by (cases b5; cases b6; cases b7) (simp_all add: lower_char_def)
qed

lemma Inr_eq_ebind: "Inr y = ebind m f \<longleftrightarrow> (\<exists>x. m = Inr x \<and> f x = Inr y)"
  by (cases m) auto

section \<open>Account discovery: the routing fields\<close>

lemma last_chars_drop: "last_chars n s = drop (length s - n) s"
  by (simp add: last_chars_def take_rev)

lemma routing_gbp:
  assumes "routing bd = Inr (sc, an)"
    and "py_getattr bd ''currency'' = Inr (PStr ''GBP'')"
  shows "py_getattr bd ''bankCode'' = Inr sc \<and>
         (\<exists>raw. py_getattr bd ''accountNumber'' = Inr raw \<and>
            (if py_len raw = Inr 8 then an = raw
             else \<exists>s. raw = PStr s \<and> an = PStr (last_chars 8 (without_spaces s))))"
proof -
  from assms obtain sc' raw n where
    sc: "py_getattr bd ''bankCode'' = Inr sc'" and
    raw: "py_getattr bd ''accountNumber'' = Inr raw" and
    n: "py_len raw = Inr n" and
    rest: "(if n = 8 then Inr (sc', raw)
            else ebind (py_replace_spaces raw) (\<lambda>stripped.
                 ebind (py_last8 stripped) (\<lambda>account_number. Inr (sc', account_number))))
           = (Inr (sc, an) :: pyerror + pyval \<times> pyval)"
    by (auto simp: routing_def py_eq_str_def ebind_eq_Inr)
  show ?thesis
  proof (cases "n = 8")
    case True
    with rest sc raw n show ?thesis by simp
  next
    case False
    with rest obtain stripped where
      st: "py_replace_spaces raw = Inr stripped" and
      l8: "py_last8 stripped = Inr an" and [simp]: "sc' = sc"
      by (auto simp: ebind_eq_Inr)
    from st obtain s where s: "raw = PStr s" "stripped = PStr (without_spaces s)"
      by (cases raw) (auto simp: without_spaces_def split: option.splits)
    with l8 have "an = PStr (last_chars 8 (without_spaces s))"
      by (auto simp: last_chars_drop)
    with sc raw n False s show ?thesis by simp
  qed
qed

lemma collect_one_fields:
  assumes "collect_one ba account = Inr (Some b)"
  shows "\<exists>bd cur. py_getattr account ''bankDetails'' = Inr bd \<and>
           py_getattr bd ''currency'' = Inr cur \<and> ba_currency b = cur \<and>
           routing bd = Inr (ba_sort_code b, ba_acct_id b) \<and> \<not> ba_active b"
  using assms
  by (auto simp: collect_one_def ebind_eq_Inr split: if_splits)

lemma py_getattr_dict:
  "py_getattr v k = Inr x \<Longrightarrow> \<exists>kvs. v = PDict kvs \<and> map_of kvs k = Some x"
  by (cases v) (auto split: option.splits)

text \<open>
  The account a balance produces: a balance whose bank details carry the currency
  "GBP", a bank code, a bank name, a string for the account number and an address of
  strings (the post code may be empty or None) does produce an account, inactive, with
  the routing fields of the specification.
\<close>

lemma collect_one_gbp_yields:
  assumes "py_getattr account ''bankDetails'' = Inr bd"
    and "py_getattr bd ''bankAddress'' = Inr a"
    and "py_getattr a ''addressFirstLine'' = Inr (PStr line1)"
    and "py_getattr a ''city'' = Inr (PStr city)"
    and "py_getattr a ''postCode'' = Inr post_code"
    and "\<not> truthy post_code \<or> (\<exists>s. post_code = PStr s)"
    and "py_getattr a ''country'' = Inr (PStr country)"
    and "py_getattr bd ''currency'' = Inr (PStr ''GBP'')"
    and "py_getattr bd ''bankCode'' = Inr sort_code"
    and "py_getattr bd ''accountNumber'' = Inr (PStr number)"
    and "py_getattr bd ''bankName'' = Inr bank_name"
    and "py_getattr borderless_account ''id'' = Inr bid"
  shows "\<exists>b. collect_one borderless_account account = Inr (Some b) \<and>
           ba_sort_code b = sort_code \<and>
           ba_acct_id b =
             PStr (if length number = 8 then number else last_chars 8 (without_spaces number)) \<and>
           ba_currency b = PStr ''GBP'' \<and> \<not> ba_active b \<and>
           ba_borderless_account_id b = bid"
proof -
  from py_getattr_dict [OF assms(2)] obtain kvs where bd: "bd = PDict kvs"
    and adr: "map_of kvs ''bankAddress'' = Some a" by blast
  from py_getattr_dict [OF assms(3)] obtain avs where a: "a = PDict avs"
    and l1: "map_of avs ''addressFirstLine'' = Some (PStr line1)" by blast
  from bd adr have tb: "truthy bd" by (cases kvs) auto
  from a l1 have ta: "truthy a" by (cases avs) auto
  have hb: "has_bank_address account"
    using assms(1,2) tb ta by (simp add: has_bank_address_def)
  have l2: "\<exists>s. str_add_py (city @ '' '') (if truthy post_code then post_code else PStr '''') = Inr s"
    using assms(6) by auto
  have ad: "\<exists>s. bank_address account = Inr s"
    using assms(1-5,7) l2 by (auto simp: bank_address_def py_join_def)
  have ro: "routing bd = Inr (sort_code,
      PStr (if length number = 8 then number else last_chars 8 (without_spaces number)))"
    using assms(8-10)
    by (simp add: routing_def py_eq_str_def last_chars_drop without_spaces_def)
  have sw: "\<exists>v. py_get bd ''swift'' PNone = Inr v" "\<exists>v. py_get bd ''iban'' PNone = Inr v"
    using bd by (auto split: option.splits)
  from hb ad ro sw assms(1,8,11,12) show ?thesis
    by (auto simp: collect_one_def)
qed

lemma collect_one_gbp_fields:
  assumes "collect_one borderless_account account = Inr (Some b)"
    and "py_getattr account ''bankDetails'' = Inr bd"
    and "py_getattr bd ''currency'' = Inr (PStr ''GBP'')"
  shows "py_getattr bd ''bankCode'' = Inr (ba_sort_code b) \<and>
         (\<exists>raw. py_getattr bd ''accountNumber'' = Inr raw \<and>
            (if py_len raw = Inr 8 then ba_acct_id b = raw
             else \<exists>s. raw = PStr s \<and> ba_acct_id b = PStr (last_chars 8 (without_spaces s))))"
proof -
  from collect_one_fields [OF assms(1)] assms(2)
  have "routing bd = Inr (ba_sort_code b, ba_acct_id b)" by auto
  from routing_gbp [OF this assms(3)] show ?thesis .
qed

text \<open>
  C2. For a balance whose bank details have the currency "GBP". First, a balance with
  a bank code, a bank name, a string for the account number and an address of strings
  does produce a BankAccount: its sort code is the bank code, and its account number
  is the raw account number unchanged when that has exactly 8 characters, and otherwise
  its last eight characters after all spaces are removed. Second, whatever the balance
  holds, every BankAccount produced from it has the bank code as its sort code, and as
  its account number the raw value itself when its length is 8, and otherwise the raw
  value is a string and the account number its last eight characters without spaces.
\<close>

theorem gbp_routing:
  assumes "py_getattr account ''bankDetails'' = Inr bd"
    and "py_getattr bd ''currency'' = Inr (PStr ''GBP'')"
  shows "(\<forall>a line1 city post_code country sort_code number bank_name bid.
            py_getattr bd ''bankAddress'' = Inr a \<longrightarrow>
            py_getattr a ''addressFirstLine'' = Inr (PStr line1) \<longrightarrow>
            py_getattr a ''city'' = Inr (PStr city) \<longrightarrow>
            py_getattr a ''postCode'' = Inr post_code \<longrightarrow>
            (\<not> truthy post_code \<or> (\<exists>s. post_code = PStr s)) \<longrightarrow>
            py_getattr a ''country'' = Inr (PStr country) \<longrightarrow>
            py_getattr bd ''bankCode'' = Inr sort_code \<longrightarrow>
            py_getattr bd ''accountNumber'' = Inr (PStr number) \<longrightarrow>
            py_getattr bd ''bankName'' = Inr bank_name \<longrightarrow>
            py_getattr borderless_account ''id'' = Inr bid \<longrightarrow>
            (\<exists>b. collect_one borderless_account account = Inr (Some b) \<and>
                 ba_sort_code b = sort_code \<and>
                 ba_acct_id b =
                   PStr (if length number = 8 then number
                         else last_chars 8 (without_spaces number)))) \<and>
         (\<forall>b. collect_one borderless_account account = Inr (Some b) \<longrightarrow>
            py_getattr bd ''bankCode'' = Inr (ba_sort_code b) \<and>
            (\<exists>raw. py_getattr bd ''accountNumber'' = Inr raw \<and>
               (if py_len raw = Inr 8 then ba_acct_id b = raw
                else \<exists>s. raw = PStr s \<and>
                       ba_acct_id b = PStr (last_chars 8 (without_spaces s)))))"
proof (intro conjI allI impI)
  fix a line1 city post_code country sort_code number bank_name bid
  assume "py_getattr bd ''bankAddress'' = Inr a"
    "py_getattr a ''addressFirstLine'' = Inr (PStr line1)"
    "py_getattr a ''city'' = Inr (PStr city)"
    "py_getattr a ''postCode'' = Inr post_code"
    "\<not> truthy post_code \<or> (\<exists>s. post_code = PStr s)"
    "py_getattr a ''country'' = Inr (PStr country)"
    "py_getattr bd ''bankCode'' = Inr sort_code"
    "py_getattr bd ''accountNumber'' = Inr (PStr number)"
    "py_getattr bd ''bankName'' = Inr bank_name"
    "py_getattr borderless_account ''id'' = Inr bid"
  from collect_one_gbp_yields [OF assms(1) this(1-6) assms(2) this(7-10)]
  show "\<exists>b. collect_one borderless_account account = Inr (Some b) \<and>
         ba_sort_code b = sort_code \<and>
         ba_acct_id b =
           PStr (if length number = 8 then number else last_chars 8 (without_spaces number))"
    by blast
next
  fix b
  assume "collect_one borderless_account account = Inr (Some b)"
  from collect_one_gbp_fields [OF this assms]
  show "py_getattr bd ''bankCode'' = Inr (ba_sort_code b)"
    and "\<exists>raw. py_getattr bd ''accountNumber'' = Inr raw \<and>
            (if py_len raw = Inr 8 then ba_acct_id b = raw
             else \<exists>s. raw = PStr s \<and> ba_acct_id b = PStr (last_chars 8 (without_spaces s)))"
    by blast+
qed

text \<open>
  The sample balance with an account number of 8 characters, with an IBAN in its place,
  and with 8 characters one of which is a space.
\<close>

theorem gbp_routing_witness:
  "(\<exists>b. collect_one (example_borderless_account []) (example_gbp_balance ''31926819'') =
          Inr (Some b) \<and>
        ba_sort_code b = PStr ''23-14-70'' \<and> ba_acct_id b = PStr ''31926819'') \<and>
   (\<exists>b. collect_one (example_borderless_account [])
          (example_gbp_balance ''GB29 NWBK 6016 1331 9268 19'') = Inr (Some b) \<and>
        ba_sort_code b = PStr ''23-14-70'' \<and> ba_acct_id b = PStr ''31926819'') \<and>
   (\<exists>b. collect_one (example_borderless_account []) (example_gbp_balance ''3192 819'') =
          Inr (Some b) \<and>
        ba_sort_code b = PStr ''23-14-70'' \<and> ba_acct_id b = PStr ''3192 819'')"
proof -
  let ?bd = "\<lambda>number. PDict [(''currency'', PStr ''GBP''), (''bankCode'', PStr ''23-14-70''),
          (''accountNumber'', PStr number), (''bankName'', PStr ''Wise''),
          (''bankAddress'', example_bank_address)]"
  have bd: "py_getattr (example_gbp_balance number) ''bankDetails'' = Inr (?bd number)" for number
    by (simp add: example_gbp_balance_def)
  have cur: "py_getattr (?bd number) ''currency'' = Inr (PStr ''GBP'')" for number
    by simp
  have a: "py_getattr (?bd number) ''bankAddress'' = Inr example_bank_address" for number
    by simp
  have l1: "py_getattr example_bank_address ''addressFirstLine'' =
      Inr (PStr ''56 Shoreditch High Street'')"
    and ci: "py_getattr example_bank_address ''city'' = Inr (PStr ''London'')"
    and pc: "py_getattr example_bank_address ''postCode'' = Inr (PStr ''E1 6JJ'')"
    and co: "py_getattr example_bank_address ''country'' = Inr (PStr ''United Kingdom'')"
    by (simp_all add: example_bank_address_def)
  have sc: "py_getattr (?bd number) ''bankCode'' = Inr (PStr ''23-14-70'')" for number
    by simp
  have an: "py_getattr (?bd number) ''accountNumber'' = Inr (PStr number)" for number
    by simp
  have bn: "py_getattr (?bd number) ''bankName'' = Inr (PStr ''Wise'')" for number
    by simp
  have bi: "py_getattr (example_borderless_account []) ''id'' = Inr (PInt 64)"
    by (simp add: example_borderless_account_def)
  have yields: "\<exists>b. collect_one (example_borderless_account []) (example_gbp_balance number) =
        Inr (Some b) \<and> ba_sort_code b = PStr ''23-14-70'' \<and>
        ba_acct_id b =
          PStr (if length number = 8 then number else last_chars 8 (without_spaces number))"
    for number
    using gbp_routing [OF bd cur, of number "example_borderless_account []"]
      a [of number] l1 ci pc co sc [of number] an [of number] bn [of number] bi
    by blast
  from yields [of "''31926819''"] yields [of "''GB29 NWBK 6016 1331 9268 19''"]
    yields [of "''3192 819''"]
  show ?thesis
    by (simp add: last_chars_def without_spaces_def)
qed

lemma example_gbp_yields:
  "collect_one (example_borderless_account bs) (example_gbp_balance ''GB29 NWBK 6016 1331 9268 19'') =
     Inr (Some \<lparr> ba_id = None, ba_sort_code = PStr ''23-14-70'', ba_acct_id = PStr ''31926819'',
       ba_currency = PStr ''GBP'', ba_active = False, ba_institution = PStr ''Wise'',
       ba_address = PStr ''56 Shoreditch High Street, London E1 6JJ, United Kingdom'',
       ba_swift = PNone, ba_iban = PNone, ba_borderless_account_id = PInt 64 \<rparr>)"
  by (simp add: collect_one_def has_bank_address_def bank_address_def routing_def
      example_gbp_balance_def example_bank_address_def example_borderless_account_def
      py_eq_str_def py_join_def)

lemma example_gbp_eight:
  "collect_one (example_borderless_account bs) (example_gbp_balance ''3192 819'') =
     Inr (Some \<lparr> ba_id = None, ba_sort_code = PStr ''23-14-70'', ba_acct_id = PStr ''3192 819'',
       ba_currency = PStr ''GBP'', ba_active = False, ba_institution = PStr ''Wise'',
       ba_address = PStr ''56 Shoreditch High Street, London E1 6JJ, United Kingdom'',
       ba_swift = PNone, ba_iban = PNone, ba_borderless_account_id = PInt 64 \<rparr>)"
  by (simp add: collect_one_def has_bank_address_def bank_address_def routing_def
      example_gbp_balance_def example_bank_address_def example_borderless_account_def
      py_eq_str_def py_join_def)

lemma collect_loop_member:
  "b \<in> set (fst (collect_loop ba accounts)) \<Longrightarrow>
     \<exists>account \<in> set accounts. collect_one ba account = Inr (Some b)"
proof (induction accounts)
  case Nil
  then show ?case by simp
next
  case (Cons a rest)
  then show ?case
    by (auto split: sum.splits option.splits prod.splits)
qed

lemma collect_bank_accounts_member:
  assumes "b \<in> set (fst (collect_bank_accounts ba))"
  shows "\<exists>balances accounts. py_getattr ba ''balances'' = Inr balances \<and>
           py_iter balances = Inr accounts \<and>
           (\<exists>account \<in> set accounts. collect_one ba account = Inr (Some b))"
proof -
  from assms obtain accounts where
    it: "ebind (py_getattr ba ''balances'') py_iter = Inr accounts" and
    mem: "b \<in> set (fst (collect_loop ba accounts))"
    by (auto simp: collect_bank_accounts_def split: sum.splits)
  from it obtain balances where "py_getattr ba ''balances'' = Inr balances"
    "py_iter balances = Inr accounts"
    by (auto simp: ebind_eq_Inr)
  with collect_loop_member [OF mem] show ?thesis by blast
qed

lemma routing_other:
  assumes "routing bd = Inr (sc, an)"
    and "py_getattr bd ''currency'' = Inr cur" and "cur \<noteq> PStr ''GBP''"
  shows "sc = PNone \<and> an = PNone"
  using assms by (simp add: routing_def py_eq_str_def)

text \<open>
  C7. Every BankAccount that discovery produces from a borderless account with a
  currency other than "GBP" (the currency of the balance's bank details) has no sort
  code and no account number: the bank code is not used for it.
\<close>

theorem non_gbp_routing:
  assumes "b \<in> set (fst (collect_bank_accounts borderless_account))"
    and "ba_currency b \<noteq> PStr ''GBP''"
  shows "ba_sort_code b = PNone \<and> ba_acct_id b = PNone"
proof -
  from collect_bank_accounts_member [OF assms(1)] obtain account where
    "collect_one borderless_account account = Inr (Some b)" by blast
  from collect_one_fields [OF this] obtain bd where
    "py_getattr bd ''currency'' = Inr (ba_currency b)"
    "routing bd = Inr (ba_sort_code b, ba_acct_id b)" by blast
  with routing_other assms(2) show ?thesis by blast
qed

lemma example_eur_yields:
  "collect_bank_accounts (example_borderless_account [example_eur_balance]) =
     ([\<lparr> ba_id = None, ba_sort_code = PNone, ba_acct_id = PNone,
       ba_currency = PStr ''EUR'', ba_active = False, ba_institution = PStr ''Wise'',
       ba_address = PStr ''56 Shoreditch High Street, London E1 6JJ, United Kingdom'',
       ba_swift = PStr ''TRWIBEB1XXX'', ba_iban = PStr ''BE12 3456 7890 1234'',
       ba_borderless_account_id = PInt 64 \<rparr>], None)"
  by (simp add: collect_bank_accounts_def collect_one_def has_bank_address_def bank_address_def
      routing_def example_eur_balance_def example_bank_address_def example_borderless_account_def
      py_eq_str_def py_join_def)

theorem non_gbp_routing_witness:
  "(\<exists>b. fst (collect_bank_accounts (example_borderless_account [example_eur_balance])) = [b] \<and>
       ba_currency b = PStr ''EUR'' \<and> ba_sort_code b = PNone \<and> ba_acct_id b = PNone)"
proof -
  let ?b = "\<lparr> ba_id = None, ba_sort_code = PNone, ba_acct_id = PNone,
       ba_currency = PStr ''EUR'', ba_active = False, ba_institution = PStr ''Wise'',
       ba_address = PStr ''56 Shoreditch High Street, London E1 6JJ, United Kingdom'',
       ba_swift = PStr ''TRWIBEB1XXX'', ba_iban = PStr ''BE12 3456 7890 1234'',
       ba_borderless_account_id = PInt 64 \<rparr>"
  have mem: "?b \<in> set (fst (collect_bank_accounts (example_borderless_account [example_eur_balance])))"
    by (simp add: example_eur_yields)
  have cur: "ba_currency ?b \<noteq> PStr ''GBP''" by simp
  from non_gbp_routing [OF mem cur] example_eur_yields show ?thesis by simp
qed
section \<open>The health check and the business profile\<close>

lemma token_probe_str:
  assumes "config_get env ''TRANSFERWISE_API_TOKEN'' (PStr '''') = PStr token"
  shows "token_probe env =
           Inr (length token = 36,
                if length token = 36 then ''Access token set'' else ''Access token not set'')"
  using assms by (simp add: token_probe_def)

text \<open>
  C10. When the environment probe has passed and the configured API token is a
  string, or is absent and so read as the empty string: the token probe appends
  (True, "Access token set") exactly when the token has length 36, and nothing else
  about the token is looked at. A token of any other length (the absent one too) ends
  the report with (False, "Access token not set"); with a token of length 36 every
  report returned has (True, "Access token set") as its second entry.
\<close>

theorem validate_token:
  assumes "fst (environment_probe env)"
    and "map_of (config env) ''TRANSFERWISE_API_TOKEN'' = Some (PStr token) \<or>
         map_of (config env) ''TRANSFERWISE_API_TOKEN'' = None \<and> token = []"
  shows "token_probe env =
           Inr (length token = 36,
                if length token = 36 then ''Access token set'' else ''Access token not set'') \<and>
         (length token \<noteq> 36 \<longrightarrow>
            wise_validate env = Inr [environment_probe env, (False, ''Access token not set'')]) \<and>
         (length token = 36 \<longrightarrow>
            (\<forall>report. wise_validate env = Inr report \<longrightarrow>
               take 2 report = [environment_probe env, (True, ''Access token set'')]))"
proof -
  from assms(2) have "config_get env ''TRANSFERWISE_API_TOKEN'' (PStr '''') = PStr token"
    by (auto simp: config_get_def)
  note tp = token_probe_str [OF this]
  have a: "length token \<noteq> 36 \<Longrightarrow>
      wise_validate env = Inr [environment_probe env, (False, ''Access token not set'')]"
    using assms(1) tp by (simp add: wise_validate_def)
  have b: "take 2 report = [environment_probe env, (True, ''Access token set'')]"
    if "length token = 36" "wise_validate env = Inr report" for report
    using that assms(1) tp
    by (auto simp: wise_validate_def Let_def ebind_eq_Inr split: if_splits)
  from tp a b show ?thesis by blast
qed

theorem validate_token_witness:
  "wise_validate example_env_no_token =
     Inr [(True, ''Live environment being used''), (False, ''Access token not set'')] \<and>
   token_probe example_env = Inr (True, ''Access token set'')"
proof -
  have e: "environment_probe example_env_no_token = (True, ''Live environment being used'')"
    by (simp add: environment_probe_def example_env_no_token_def example_env_def config_get_def
        py_eq_str_def)
  have t: "map_of (config example_env_no_token) ''TRANSFERWISE_API_TOKEN'' = None"
    by (simp add: example_env_no_token_def example_env_def)
  have e2: "fst (environment_probe example_env)"
    by (simp add: environment_probe_def example_env_def config_get_def py_eq_str_def)
  have t2: "map_of (config example_env) ''TRANSFERWISE_API_TOKEN'' =
      Some (PStr ''0123456789abcdef0123456789abcdef0123'')"
    by (simp add: example_env_def)
  from validate_token [of example_env_no_token "[]"]
    validate_token [OF e2, of "''0123456789abcdef0123456789abcdef0123''"] e t t2
  show ?thesis by simp
qed

text \<open>What an empty filter of the listing means: every profile has a type, none "business".\<close>

lemma filter_business_Nil:
  "filter_business ps = Inr [] \<longleftrightarrow>
     (\<forall>p \<in> set ps. \<exists>t. py_getattr p ''type'' = Inr t \<and> t \<noteq> PStr ''business'')"
  by (induction ps) (auto simp: py_eq_str_def split: sum.splits)

text \<open>
  C9. With no truthy TRANSFERWISE_PROFILE_ID configured and a profile listing that
  holds no profile of type "business", \<^verbatim>\<open>wise_business_profile\<close> raises IndexError
  (from \<^verbatim>\<open>profiles[0]\<close>); it returns no id and no sentinel.
\<close>

theorem no_business_profile_raises:
  assumes "\<not> truthy (config_get env ''TRANSFERWISE_PROFILE_ID'' PNone)"
    and "profiles_list env ''business'' = Inr listed"
    and "filter_business listed = Inr []"
  shows "wise_business_profile env = Inl IndexError"
  using assms by (simp add: wise_business_profile_def first_item_def)

theorem no_business_profile_raises_witness:
  "wise_business_profile example_env_personal = Inl IndexError \<and>
   wise_business_profile (example_env\<lparr>profiles_list := (\<lambda>t. Inr [])\<rparr>) = Inl IndexError"
proof -
  have c: "\<not> truthy (config_get example_env_personal ''TRANSFERWISE_PROFILE_ID'' PNone)"
    by (simp add: example_env_personal_def example_env_def config_get_def)
  have l: "profiles_list example_env_personal ''business'' =
      Inr [PDict [(''id'', PInt 11), (''type'', PStr ''personal'')]]"
    by (simp add: example_env_personal_def)
  have f: "filter_business [PDict [(''id'', PInt 11), (''type'', PStr ''personal'')]] = Inr []"
    by (simp add: py_eq_str_def)
  have c2: "\<not> truthy (config_get (example_env\<lparr>profiles_list := (\<lambda>t. Inr [])\<rparr>)
      ''TRANSFERWISE_PROFILE_ID'' PNone)"
    by (simp add: example_env_def config_get_def)
  from no_business_profile_raises [OF c l f]
    no_business_profile_raises [OF c2, of "[]"]
  show ?thesis by simp
qed

lemma validate_stops_early:
  "\<not> fst (environment_probe env) \<Longrightarrow> wise_validate env = Inr [environment_probe env]"
  "fst (environment_probe env) \<Longrightarrow> token_probe env = Inr t \<Longrightarrow> \<not> fst t \<Longrightarrow>
     wise_validate env = Inr [environment_probe env, t]"
  "fst (environment_probe env) \<Longrightarrow> token_probe env = Inr t \<Longrightarrow> fst t \<Longrightarrow>
     \<not> fst (connection_probe env) \<Longrightarrow>
     wise_validate env = Inr [environment_probe env, t, connection_probe env]"
  by (simp_all add: wise_validate_def Let_def)

text \<open>
  C8, at an input where the business profile probe fails (the one business profile
  listed has the id 0): the report does not end at the failed entry, the subscriptions
  are still listed and a fifth entry is appended. The three probes before it end the
  report when they fail (\<open>validate_stops_early\<close>).
\<close>

theorem validate_goes_on_after_failed_profile:
  "wise_validate example_env_profile_zero =
     Inr [(True, ''Live environment being used''),
          (True, ''Access token set''),
          (True, ''Connection to Wise API succeeded''),
          (False, ''Wise business profile does not exist''),
          (True, ''Webhook event subscriptions are present'')]"
  by (simp add: wise_validate_def example_env_profile_zero_def example_env_def
      environment_probe_def token_probe_def connection_probe_def profile_probe_def
      webhooks_probe_def wise_business_profile_def first_item_def config_get_def py_eq_str_def
      example_profile_def)

lemma validate_config_profile_zero:
  "wise_validate (example_env\<lparr>config := (''TRANSFERWISE_PROFILE_ID'', PStr '' 0 '') # config example_env\<rparr>) =
     Inr [(True, ''Live environment being used''),
          (True, ''Access token set''),
          (True, ''Connection to Wise API succeeded''),
          (False, ''Wise business profile does not exist''),
          (True, ''Webhook event subscriptions are present'')]"
  by (simp add: wise_validate_def example_env_def
      environment_probe_def token_probe_def connection_probe_def profile_probe_def
      webhooks_probe_def wise_business_profile_def first_item_def config_get_def py_eq_str_def
      example_profile_def config_item_def int_of_str_def strip_def is_space_def is_digit_def)

section \<open>The handler: the early returns\<close>

text \<open>
  C3, amended. For every credit event that carries a profile id (not None) and whose
  group id equals 0, the handler returns ("", 204) and leaves the state as it was: no
  request is sent and no row created, whatever else the payload holds (a currency or
  none).
\<close>

theorem sentinel_credit_event:
  assumes "resource_field event ''profile_id'' = Inr profile_id" and "profile_id \<noteq> PNone"
    and "resource_field event ''id'' = Inr borderless_account_id"
    and "py_eq_zero borderless_account_id"
  shows "wise_balance_credit env event_type event w = (Inr ('''', 204), w)"
proof -
  from assms(4) have "borderless_account_id \<noteq> PNone" by auto
  with assms show ?thesis by (simp add: wise_balance_credit_def)
qed

theorem sentinel_credit_event_witness:
  "wise_balance_credit example_env (PStr ''balances#credit'')
     (example_event [(''id'', PInt 0), (''profile_id'', PInt 12)] PNone) example_world =
   (Inr ('''', 204), example_world)"
proof -
  let ?ev = "example_event [(''id'', PInt 0), (''profile_id'', PInt 12)] PNone"
  have p: "resource_field ?ev ''profile_id'' = Inr (PInt 12)"
    by (simp add: resource_field_def example_event_def)
  have i: "resource_field ?ev ''id'' = Inr (PInt 0)"
    by (simp add: resource_field_def example_event_def)
  from sentinel_credit_event [OF p _ i] show ?thesis by simp
qed

text \<open>
  C3 as stated fails: an event with the group id 0 and no profile id is answered with
  \<^verbatim>\<open>abort(400)\<close>, since the profile id is checked before the group id.
\<close>

theorem sentinel_without_profile_id:
  "resource_field (example_event [(''id'', PInt 0)] (PStr ''GBP'')) ''id'' = Inr (PInt 0) \<and>
   fst (wise_balance_credit example_env (PStr ''balances#credit'')
          (example_event [(''id'', PInt 0)] (PStr ''GBP'')) example_world) =
     Inl (HTTPException 400)"
  by (simp add: wise_balance_credit_def resource_field_def example_event_def)


text \<open>
  With the sample database, where a column matches the same value only, the lookup
  finds no row exactly when no active row has the group id and the currency.
\<close>

lemma example_query_None:
  "example_query rows bid cur = Inr None \<longleftrightarrow>
     (\<forall>b \<in> set rows. \<not> (ba_borderless_account_id b = bid \<and> ba_currency b = cur \<and> ba_active b))"
  by (auto simp: example_query_def find_None_iff)



text \<open>
  When the database refuses the comparison (the lookup raises), the exception leaves
  the handler: no 204, no request, no row.
\<close>

lemma lookup_raises:
  assumes "resource_field event ''profile_id'' = Inr profile_id" and "profile_id \<noteq> PNone"
    and "resource_field event ''id'' = Inr borderless_account_id"
    and "borderless_account_id \<noteq> PNone" and "\<not> py_eq_zero borderless_account_id"
    and "data_field event ''currency'' = Inr currency" and "currency \<noteq> PNone"
    and "first_active_account env (bank_accounts w) borderless_account_id currency = Inl e"
  shows "wise_balance_credit env event_type event w =
           (Inl e,
            w\<lparr>logs := logs w @
               [(INFO, ''Checking Wise details for borderless_account_id %s and currency %s'')]\<rparr>)"
  using assms
  by (simp add: wise_balance_credit_def credit_account_def log_msg_def)

section \<open>The receiver: the schema version\<close>

text \<open>
  C4. For every request that passes the parsing and the signature check and whose body
  does not have the string "2.0.0" as its schema_version (another value, no such field,
  or a body that is not an object): the sender gets the status 500 (\<^verbatim>\<open>abort(500)\<close> when
  the body is an object), and no handler is invoked: the outcome is the one with an
  empty registry, whatever the registry holds, and neither the tables nor the log of
  requests sent change.
\<close>

theorem unsupported_schema_version:
  assumes "parse_request env request = Inr (signature, body)"
    and "verify_signature env (request_data request) signature"
    and "py_get body ''schema_version'' PNone \<noteq> Inr (PStr ''2.0.0'')"
  shows "http_status (fst (wise_webhook env handlers request w)) = 500 \<and>
         (\<exists>e. fst (wise_webhook env handlers request w) = Inl e) \<and>
         ((\<exists>kvs. body = PDict kvs) \<longrightarrow>
            wise_webhook env handlers request w =
              (Inl (HTTPException 500),
               w\<lparr>logs := logs w @
                  [(INFO, ''Received Wise webhook request: data=%r headers=%r''),
                   (WARNING, ''Unsupported Wise schema version %s'')]\<rparr>)) \<and>
         wise_webhook env handlers request w = wise_webhook env Map.empty request w \<and>
         bank_transactions (snd (wise_webhook env handlers request w)) = bank_transactions w \<and>
         bank_accounts (snd (wise_webhook env handlers request w)) = bank_accounts w \<and>
         sent (snd (wise_webhook env handlers request w)) = sent w"
proof (cases "py_get body ''schema_version'' PNone")
  case (Inl e)
  then have "e = AttributeError" by (cases body) (auto split: option.splits)
  with Inl assms(1,2) have "\<And>hs. wise_webhook env hs request w =
      (Inl AttributeError, log_msg INFO ''Received Wise webhook request: data=%r headers=%r'' w)"
    by (simp add: wise_webhook_def Let_def)
  moreover from Inl have "\<not> (\<exists>kvs. body = PDict kvs)" by (auto split: option.splits)
  ultimately show ?thesis by (simp add: log_msg_def)
next
  case (Inr v)
  with assms(3) have "v \<noteq> PStr ''2.0.0''" by simp
  with Inr assms(1,2) have "\<And>hs. wise_webhook env hs request w =
      (Inl (HTTPException 500), log_msg WARNING ''Unsupported Wise schema version %s''
         (log_msg INFO ''Received Wise webhook request: data=%r headers=%r'' w))"
    by (simp add: wise_webhook_def Let_def)
  then show ?thesis by (simp add: log_msg_def)
qed

theorem unsupported_schema_version_witness:
  "fst (wise_webhook example_env (webhook_handlers example_env)
     (example_request (PDict [(''schema_version'', PStr ''1.0.0''),
                              (''event_type'', PStr ''balances#credit'')])) example_world) =
     Inl (HTTPException 500) \<and>
   fst (wise_webhook example_env (webhook_handlers example_env)
     (example_request (PDict [(''event_type'', PStr ''balances#credit'')])) example_world) =
     Inl (HTTPException 500)"
proof -
  let ?b1 = "PDict [(''schema_version'', PStr ''1.0.0''), (''event_type'', PStr ''balances#credit'')]"
  let ?b2 = "PDict [(''event_type'', PStr ''balances#credit'')]"
  have p1: "parse_request example_env (example_request ?b1) = Inr (''good'', ?b1)"
    by (simp add: parse_request_def example_request_def example_env_def str_lower_def)
  have p2: "parse_request example_env (example_request ?b2) = Inr (''good'', ?b2)"
    by (simp add: parse_request_def example_request_def example_env_def str_lower_def)
  have v: "verify_signature example_env (request_data (example_request b)) ''good''" for b
    by (simp add: example_env_def)
  have s1: "py_get ?b1 ''schema_version'' PNone \<noteq> Inr (PStr ''2.0.0'')" by simp
  have s2: "py_get ?b2 ''schema_version'' PNone \<noteq> Inr (PStr ''2.0.0'')" by simp
  from unsupported_schema_version [OF p1 v s1, of "webhook_handlers example_env" example_world]
    unsupported_schema_version [OF p2 v s2, of "webhook_handlers example_env" example_world]
  show ?thesis by simp
qed

section \<open>The statement fetcher: the challenge and the final response\<close>

lemma statement_payload_raises:
  assumes "status_code resp \<noteq> 200 \<or>
           header_lookup (resp_headers resp) ''X-2FA-Approval-Result'' \<noteq> Inr ''APPROVED''"
  shows "\<exists>e. statement_payload resp = Inl e"
proof (cases "status_code resp = 200")
  case False
  then show ?thesis by (simp add: statement_payload_def)
next
  case True
  with assms have h: "header_lookup (resp_headers resp) ''X-2FA-Approval-Result'' \<noteq> Inr ''APPROVED''"
    by simp
  show ?thesis
  proof (cases "header_lookup (resp_headers resp) ''X-2FA-Approval-Result''")
    case (Inl e)
    with True show ?thesis by (simp add: statement_payload_def)
  next
    case (Inr r)
    with h True show ?thesis by (simp add: statement_payload_def)
  qed
qed

lemma statement_payload_approved:
  assumes "status_code resp = 200"
    and "header_lookup (resp_headers resp) ''X-2FA-Approval-Result'' = Inr ''APPROVED''"
  shows "statement_payload resp = resp_json resp"
  using assms by (simp add: statement_payload_def)

lemma wise_statement_plain:
  assumes "incoming w = Inr resp # rest" and "needs_2fa resp = Inr False"
  shows "wise_statement env profile_id account_id currency interval_start interval_end w =
           (statement_payload resp,
            w\<lparr>incoming := rest,
              sent := sent w @ [statement_request env profile_id account_id currency
                                  interval_start interval_end (required_headers env)]\<rparr>)"
  using assms by (simp add: wise_statement_def requests_get_def Let_def)

lemma wise_statement_unsigned:
  assumes "incoming w = Inr resp # rest" and "needs_2fa resp = Inr True"
    and "sign_challenge env resp (required_headers env) = Inl e"
  shows "wise_statement env profile_id account_id currency interval_start interval_end w =
           (Inl e,
            w\<lparr>incoming := rest,
              sent := sent w @ [statement_request env profile_id account_id currency
                                  interval_start interval_end (required_headers env)]\<rparr>)"
  using assms by (simp add: wise_statement_def requests_get_def Let_def)

lemma payload_approved: "approved resp \<Longrightarrow> statement_payload resp = resp_json resp"
  by (simp add: approved_def statement_payload_approved)

lemma payload_not_approved: "\<not> approved resp \<Longrightarrow> \<exists>e. statement_payload resp = Inl e"
  by (rule statement_payload_raises) (auto simp: approved_def)

lemma needs_2fa_challenged: "needs_2fa resp = Inr True \<longleftrightarrow> challenged resp"
proof (cases "header_lookup (resp_headers resp) ''X-2FA-Approval-Result''")
  case (Inl e)
  then show ?thesis by (simp add: needs_2fa_def challenged_def)
next
  case (Inr r)
  then show ?thesis by (simp add: needs_2fa_def challenged_def)
qed

lemma needs_2fa_raises: "needs_2fa resp = Inl e \<Longrightarrow> status_code resp = 403"
  by (simp add: needs_2fa_def split: if_splits)

lemma encode_ascii_same: "encode_ascii s = Inr m \<Longrightarrow> m = s"
  by (simp add: encode_ascii_def split: if_splits)

text \<open>
  Lines 185-192 succeed exactly when the challenge header is there, the key is
  configured and loads, the challenge is ASCII and the key signs it with PKCS#1 v1.5
  and SHA-256; the headers are then the given ones with the two new entries.
\<close>

lemma sign_challenge_Inr:
  "sign_challenge env resp headers = Inr headers2 \<longleftrightarrow>
     (\<exists>challenge path key signature.
        header_lookup (resp_headers resp) ''X-2FA-Approval'' = Inr challenge \<and>
        config_item env ''TRANSFERWISE_PRIVATE_KEY'' = Inr path \<and>
        load_pem_private_key env path = Inr key \<and>
        encode_ascii challenge = Inr challenge \<and>
        key_sign env key challenge PKCS1v15 SHA256 = Inr signature \<and>
        headers2 = AList.update ''X-2FA-Approval'' challenge
                     (AList.update ''X-Signature'' (b64encode env signature) headers))"
proof
  assume "sign_challenge env resp headers = Inr headers2"
  then obtain challenge path key message signature where
    h: "header_lookup (resp_headers resp) ''X-2FA-Approval'' = Inr challenge"
      "config_item env ''TRANSFERWISE_PRIVATE_KEY'' = Inr path"
      "load_pem_private_key env path = Inr key"
      "encode_ascii challenge = Inr message"
      "key_sign env key message PKCS1v15 SHA256 = Inr signature"
      "headers2 = AList.update ''X-2FA-Approval'' challenge
                     (AList.update ''X-Signature'' (b64encode env signature) headers)"
    by (auto simp: sign_challenge_def ebind_eq_Inr)
  from encode_ascii_same [OF h(4)] h show
    "\<exists>challenge path key signature.
        header_lookup (resp_headers resp) ''X-2FA-Approval'' = Inr challenge \<and>
        config_item env ''TRANSFERWISE_PRIVATE_KEY'' = Inr path \<and>
        load_pem_private_key env path = Inr key \<and>
        encode_ascii challenge = Inr challenge \<and>
        key_sign env key challenge PKCS1v15 SHA256 = Inr signature \<and>
        headers2 = AList.update ''X-2FA-Approval'' challenge
                     (AList.update ''X-Signature'' (b64encode env signature) headers)"
    by blast
next
  assume "\<exists>challenge path key signature.
        header_lookup (resp_headers resp) ''X-2FA-Approval'' = Inr challenge \<and>
        config_item env ''TRANSFERWISE_PRIVATE_KEY'' = Inr path \<and>
        load_pem_private_key env path = Inr key \<and>
        encode_ascii challenge = Inr challenge \<and>
        key_sign env key challenge PKCS1v15 SHA256 = Inr signature \<and>
        headers2 = AList.update ''X-2FA-Approval'' challenge
                     (AList.update ''X-Signature'' (b64encode env signature) headers)"
  then show "sign_challenge env resp headers = Inr headers2"
    by (auto simp: sign_challenge_def)
qed

lemma wise_statement_no_response:
  assumes "incoming w = [] \<or> (\<exists>e rest. incoming w = Inl e # rest)"
  shows "(\<exists>e. fst (wise_statement env profile_id account_id currency interval_start
                    interval_end w) = Inl e) \<and>
         sent (snd (wise_statement env profile_id account_id currency interval_start
                    interval_end w)) =
           sent w @ [statement_request env profile_id account_id currency interval_start
                       interval_end (required_headers env)]"
  using assms by (auto simp: wise_statement_def requests_get_def Let_def)

lemma wise_statement_unchallenged:
  assumes "incoming w = Inr resp # rest" and "\<not> challenged resp"
  shows "sent (snd (wise_statement env profile_id account_id currency interval_start
                    interval_end w)) =
           sent w @ [statement_request env profile_id account_id currency interval_start
                       interval_end (required_headers env)] \<and>
         (\<not> approved resp \<longrightarrow>
            (\<exists>e. fst (wise_statement env profile_id account_id currency interval_start
                        interval_end w) = Inl e)) \<and>
         (approved resp \<longrightarrow>
            fst (wise_statement env profile_id account_id currency interval_start
                   interval_end w) = resp_json resp)"
proof (cases "needs_2fa resp")
  case (Inl e)
  from needs_2fa_raises [OF this] have "\<not> approved resp" by (simp add: approved_def)
  with Inl assms(1) show ?thesis
    by (simp add: wise_statement_def requests_get_def Let_def)
next
  case (Inr b)
  with assms(2) needs_2fa_challenged [of resp] have "needs_2fa resp = Inr False"
    by (cases b) auto
  from wise_statement_plain [OF assms(1) this] payload_approved [of resp]
    payload_not_approved [of resp]
  show ?thesis by auto
qed

lemma wise_statement_signed:
  assumes "incoming w = Inr resp # rest" and "challenged resp"
    and "sign_challenge env resp (required_headers env) = Inr headers2"
  shows "sent (snd (wise_statement env profile_id account_id currency interval_start
                    interval_end w)) =
           sent w @ [statement_request env profile_id account_id currency interval_start
                       interval_end (required_headers env),
                     statement_request env profile_id account_id currency interval_start
                       interval_end headers2] \<and>
         (\<forall>final rest'. rest = Inr final # rest' \<longrightarrow>
            fst (wise_statement env profile_id account_id currency interval_start
                   interval_end w) = statement_payload final) \<and>
         (rest = [] \<or> (\<exists>e rest'. rest = Inl e # rest') \<longrightarrow>
            (\<exists>e. fst (wise_statement env profile_id account_id currency interval_start
                        interval_end w) = Inl e))"
proof -
  from assms(2) have n: "needs_2fa resp = Inr True" by (simp add: needs_2fa_challenged)
  show ?thesis
  proof (cases rest)
    case Nil
    with assms(1,3) n show ?thesis
      by (simp add: wise_statement_def requests_get_def Let_def)
  next
    case (Cons r rest')
    with assms(1,3) n show ?thesis
      by (cases r) (simp_all add: wise_statement_def requests_get_def Let_def)
  qed
qed

text \<open>
  C6, amended. For every call of \<^verbatim>\<open>wise_statement\<close>, with \<open>rq\<close> its request and \<open>h\<close>
  the client's headers:
  \<^item> when the first request gets no response (the call to \<^verbatim>\<open>requests.get\<close> raises), the
    call raises and one request was sent;
  \<^item> when the first response is not a 403 with the 2FA result "REJECTED", one request
    is sent, and the call raises if the status of the response is not 200 or its 2FA
    result is not "APPROVED" (or missing), and otherwise gives what decoding the body
    gives: the payload, or the exception of a body that is not JSON;
  \<^item> when the first response is a 403 with "REJECTED", its challenge header is there
    and is ASCII, and the configured key loads and signs the challenge with PKCS#1
    v1.5 padding and SHA-256: exactly two requests are sent, the second being the first
    with X-Signature set to the base64 text of that signature and X-2FA-Approval set to
    the challenge, and the second response is checked and decoded as above (a second
    request that gets no response makes the call raise);
  \<^item> when the first response is a 403 with "REJECTED" and the challenge cannot be read
    or signed so, the call raises and only the first request was sent: no retry.
\<close>

theorem wise_statement_outcomes:
  "(let rq = statement_request env profile_id account_id currency interval_start interval_end;
        h = required_headers env;
        result = wise_statement env profile_id account_id currency interval_start
                   interval_end w
    in
      (incoming w = [] \<or> (\<exists>e rest. incoming w = Inl e # rest) \<longrightarrow>
         (\<exists>e. fst result = Inl e) \<and> sent (snd result) = sent w @ [rq h]) \<and>
      (\<forall>resp rest. incoming w = Inr resp # rest \<longrightarrow> \<not> challenged resp \<longrightarrow>
         sent (snd result) = sent w @ [rq h] \<and>
         (\<not> approved resp \<longrightarrow> (\<exists>e. fst result = Inl e)) \<and>
         (approved resp \<longrightarrow> fst result = resp_json resp)) \<and>
      (\<forall>resp rest challenge path key signature.
         incoming w = Inr resp # rest \<longrightarrow> challenged resp \<longrightarrow>
         header_lookup (resp_headers resp) ''X-2FA-Approval'' = Inr challenge \<longrightarrow>
         config_item env ''TRANSFERWISE_PRIVATE_KEY'' = Inr path \<longrightarrow>
         load_pem_private_key env path = Inr key \<longrightarrow>
         encode_ascii challenge = Inr challenge \<longrightarrow>
         key_sign env key challenge PKCS1v15 SHA256 = Inr signature \<longrightarrow>
         (let h2 = AList.update ''X-2FA-Approval'' challenge
                     (AList.update ''X-Signature'' (b64encode env signature) h)
          in sent (snd result) = sent w @ [rq h, rq h2] \<and>
             map_of h2 ''X-Signature'' = Some (b64encode env signature) \<and>
             map_of h2 ''X-2FA-Approval'' = Some challenge \<and>
             (\<forall>final rest'. rest = Inr final # rest' \<longrightarrow>
                (\<not> approved final \<longrightarrow> (\<exists>e. fst result = Inl e)) \<and>
                (approved final \<longrightarrow> fst result = resp_json final)) \<and>
             (rest = [] \<or> (\<exists>e rest'. rest = Inl e # rest') \<longrightarrow>
                (\<exists>e. fst result = Inl e)))) \<and>
      (\<forall>resp rest. incoming w = Inr resp # rest \<longrightarrow> challenged resp \<longrightarrow>
         \<not> (\<exists>challenge path key signature.
              header_lookup (resp_headers resp) ''X-2FA-Approval'' = Inr challenge \<and>
              config_item env ''TRANSFERWISE_PRIVATE_KEY'' = Inr path \<and>
              load_pem_private_key env path = Inr key \<and>
              encode_ascii challenge = Inr challenge \<and>
              key_sign env key challenge PKCS1v15 SHA256 = Inr signature) \<longrightarrow>
         (\<exists>e. fst result = Inl e) \<and> sent (snd result) = sent w @ [rq h]))"
proof -
  let ?rq = "statement_request env profile_id account_id currency interval_start interval_end"
  let ?h = "required_headers env"
  let ?R = "wise_statement env profile_id account_id currency interval_start interval_end w"
  have none: "(\<exists>e. fst ?R = Inl e) \<and> sent (snd ?R) = sent w @ [?rq ?h]"
    if "incoming w = [] \<or> (\<exists>e rest. incoming w = Inl e # rest)"
    using wise_statement_no_response [OF that] .
  have plain: "sent (snd ?R) = sent w @ [?rq ?h] \<and>
         (\<not> approved resp \<longrightarrow> (\<exists>e. fst ?R = Inl e)) \<and>
         (approved resp \<longrightarrow> fst ?R = resp_json resp)"
    if "incoming w = Inr resp # rest" "\<not> challenged resp" for resp rest
    using wise_statement_unchallenged [OF that] .
  have signed: "sent (snd ?R) = sent w @ [?rq ?h,
          ?rq (AList.update ''X-2FA-Approval'' challenge
                 (AList.update ''X-Signature'' (b64encode env signature) ?h))] \<and>
        map_of (AList.update ''X-2FA-Approval'' challenge
                 (AList.update ''X-Signature'' (b64encode env signature) ?h)) ''X-Signature'' =
          Some (b64encode env signature) \<and>
        map_of (AList.update ''X-2FA-Approval'' challenge
                 (AList.update ''X-Signature'' (b64encode env signature) ?h)) ''X-2FA-Approval'' =
          Some challenge \<and>
        (\<forall>final rest'. rest = Inr final # rest' \<longrightarrow>
           (\<not> approved final \<longrightarrow> (\<exists>e. fst ?R = Inl e)) \<and>
           (approved final \<longrightarrow> fst ?R = resp_json final)) \<and>
        (rest = [] \<or> (\<exists>e rest'. rest = Inl e # rest') \<longrightarrow> (\<exists>e. fst ?R = Inl e))"
    if "incoming w = Inr resp # rest" "challenged resp"
      "header_lookup (resp_headers resp) ''X-2FA-Approval'' = Inr challenge"
      "config_item env ''TRANSFERWISE_PRIVATE_KEY'' = Inr path"
      "load_pem_private_key env path = Inr key"
      "encode_ascii challenge = Inr challenge"
      "key_sign env key challenge PKCS1v15 SHA256 = Inr signature"
    for resp rest challenge path key signature
  proof -
    let ?h2 = "AList.update ''X-2FA-Approval'' challenge
                 (AList.update ''X-Signature'' (b64encode env signature) ?h)"
    from that(3-7) have s: "sign_challenge env resp ?h = Inr ?h2"
      unfolding sign_challenge_Inr by blast
    note ws = wise_statement_signed [OF that(1,2) s, of profile_id account_id currency
        interval_start interval_end]
    have m: "map_of ?h2 ''X-Signature'' = Some (b64encode env signature)"
      "map_of ?h2 ''X-2FA-Approval'' = Some challenge"
      by (simp_all add: update_conv')
    have fin: "(\<not> approved final \<longrightarrow> (\<exists>e. fst ?R = Inl e)) \<and>
        (approved final \<longrightarrow> fst ?R = resp_json final)"
      if "rest = Inr final # rest'" for final rest'
    proof -
      from ws that have "fst ?R = statement_payload final" by blast
      with payload_approved [of final] payload_not_approved [of final] show ?thesis by auto
    qed
    from ws m fin show ?thesis by blast
  qed
  have unsigned: "(\<exists>e. fst ?R = Inl e) \<and> sent (snd ?R) = sent w @ [?rq ?h]"
    if "incoming w = Inr resp # rest" "challenged resp"
      "\<not> (\<exists>challenge path key signature.
              header_lookup (resp_headers resp) ''X-2FA-Approval'' = Inr challenge \<and>
              config_item env ''TRANSFERWISE_PRIVATE_KEY'' = Inr path \<and>
              load_pem_private_key env path = Inr key \<and>
              encode_ascii challenge = Inr challenge \<and>
              key_sign env key challenge PKCS1v15 SHA256 = Inr signature)"
    for resp rest
  proof (cases "sign_challenge env resp ?h")
    case (Inl e)
    from that(2) have "needs_2fa resp = Inr True" by (simp add: needs_2fa_challenged)
    from wise_statement_unsigned [OF that(1) this Inl] show ?thesis by simp
  next
    case (Inr h2)
    then have False using that(3) unfolding sign_challenge_Inr by blast
    then show ?thesis ..
  qed
  show ?thesis
    unfolding Let_def
    using none plain signed unsigned by blast
qed

lemma example_challenge_challenged: "challenged example_challenge"
  by (simp add: challenged_def example_challenge_def str_lower_def lower_char_def)

lemma example_approved_approved: "approved example_approved"
  by (simp add: approved_def example_approved_def str_lower_def lower_char_def)

lemma example_unavailable_plain:
  "\<not> challenged example_unavailable \<and> \<not> approved example_unavailable"
  by (simp add: challenged_def approved_def example_unavailable_def)

lemma example_challenge_signs:
  "header_lookup (resp_headers example_challenge) ''X-2FA-Approval'' = Inr ''c0ffee'' \<and>
   config_item example_env ''TRANSFERWISE_PRIVATE_KEY'' = Inr (PStr ''wise.pem'') \<and>
   load_pem_private_key example_env (PStr ''wise.pem'') = Inr (PrivateKey ''k'') \<and>
   encode_ascii ''c0ffee'' = Inr ''c0ffee'' \<and>
   key_sign example_env (PrivateKey ''k'') ''c0ffee'' PKCS1v15 SHA256 = Inr ''sig:c0ffee'' \<and>
   b64encode example_env ''sig:c0ffee'' = ''b64:sig:c0ffee'' \<and>
   required_headers example_env = [(''Authorization'', ''Bearer 0123'')]"
  by (simp add: example_challenge_def example_env_def config_item_def encode_ascii_def
      str_lower_def lower_char_def)

lemma example_no_token_unsigned:
  "\<not> (\<exists>challenge path key signature.
        header_lookup (resp_headers example_challenge) ''X-2FA-Approval'' = Inr challenge \<and>
        config_item example_env_no_token ''TRANSFERWISE_PRIVATE_KEY'' = Inr path \<and>
        load_pem_private_key example_env_no_token path = Inr key \<and>
        encode_ascii challenge = Inr challenge \<and>
        key_sign example_env_no_token key challenge PKCS1v15 SHA256 = Inr signature)"
  by (simp add: example_env_no_token_def example_env_def config_item_def)

theorem wise_statement_outcomes_witness:
  "(let call = (\<lambda>env responses.
          wise_statement env (PInt 12) (PInt 64) (PStr ''GBP'')
            (PStr ''2024-01-01T09:30:00Z'') (PStr ''2024-01-08T09:30:00Z'')
            (example_world\<lparr>incoming := responses\<rparr>));
        rq = (\<lambda>env. statement_request env (PInt 12) (PInt 64) (PStr ''GBP'')
            (PStr ''2024-01-01T09:30:00Z'') (PStr ''2024-01-08T09:30:00Z''));
        h = [(''Authorization'', ''Bearer 0123'')];
        h2 = [(''Authorization'', ''Bearer 0123''), (''X-Signature'', ''b64:sig:c0ffee''),
              (''X-2FA-Approval'', ''c0ffee'')]
    in
      (\<exists>e. fst (call example_env []) = Inl e) \<and>
      sent (snd (call example_env [])) = [rq example_env h] \<and>
      fst (call example_env [Inr example_approved]) = Inr example_statement \<and>
      sent (snd (call example_env [Inr example_approved])) = [rq example_env h] \<and>
      (\<exists>e. fst (call example_env [Inr example_unavailable, Inr example_approved]) = Inl e) \<and>
      sent (snd (call example_env [Inr example_unavailable, Inr example_approved])) =
        [rq example_env h] \<and>
      fst (call example_env [Inr example_challenge, Inr example_approved]) =
        Inr example_statement \<and>
      sent (snd (call example_env [Inr example_challenge, Inr example_approved])) =
        [rq example_env h, rq example_env h2] \<and>
      (\<exists>e. fst (call example_env [Inr example_challenge, Inr example_unavailable]) = Inl e) \<and>
      sent (snd (call example_env [Inr example_challenge, Inr example_unavailable])) =
        [rq example_env h, rq example_env h2] \<and>
      (\<exists>e. fst (call example_env [Inr example_challenge]) = Inl e) \<and>
      sent (snd (call example_env [Inr example_challenge])) =
        [rq example_env h, rq example_env h2] \<and>
      (\<exists>e. fst (call example_env_no_token [Inr example_challenge, Inr example_approved]) =
         Inl e) \<and>
      sent (snd (call example_env_no_token [Inr example_challenge, Inr example_approved])) =
        [rq example_env_no_token h])"
proof -
  let ?call = "\<lambda>env responses.
          wise_statement env (PInt 12) (PInt 64) (PStr ''GBP'')
            (PStr ''2024-01-01T09:30:00Z'') (PStr ''2024-01-08T09:30:00Z'')
            (example_world\<lparr>incoming := responses\<rparr>)"
  let ?rq = "\<lambda>env. statement_request env (PInt 12) (PInt 64) (PStr ''GBP'')
            (PStr ''2024-01-01T09:30:00Z'') (PStr ''2024-01-08T09:30:00Z'')"
  let ?h = "[(''Authorization'', ''Bearer 0123'')]"
  let ?h2 = "[(''Authorization'', ''Bearer 0123''), (''X-Signature'', ''b64:sig:c0ffee''),
              (''X-2FA-Approval'', ''c0ffee'')]"
  note s = example_challenge_signs
  have hs: "required_headers example_env = ?h" "required_headers example_env_no_token = ?h"
    "sent example_world = []"
    by (simp_all add: example_env_no_token_def example_env_def example_world_def)
  have h2: "AList.update ''X-2FA-Approval'' ''c0ffee''
              (AList.update ''X-Signature'' (b64encode example_env ''sig:c0ffee'') ?h) = ?h2"
    using s by simp
  note t = wise_statement_outcomes [where profile_id = "PInt 12" and account_id = "PInt 64"
      and currency = "PStr ''GBP''" and interval_start = "PStr ''2024-01-01T09:30:00Z''"
      and interval_end = "PStr ''2024-01-08T09:30:00Z''", unfolded Let_def]
  note none = t [THEN conjunct1, rule_format]
  note plain = t [THEN conjunct2, THEN conjunct1, rule_format]
  note signed = t [THEN conjunct2, THEN conjunct2, THEN conjunct1, rule_format]
  note unsigned = t [THEN conjunct2, THEN conjunct2, THEN conjunct2, rule_format]
  have a: "(\<exists>e. fst (?call example_env []) = Inl e) \<and>
      sent (snd (?call example_env [])) = [?rq example_env ?h]"
    using none [of "example_world\<lparr>incoming := []\<rparr>" example_env] hs by simp
  have b: "fst (?call example_env [Inr example_approved]) = Inr example_statement \<and>
      sent (snd (?call example_env [Inr example_approved])) = [?rq example_env ?h]"
  proof -
    have n: "\<not> challenged example_approved"
      by (simp add: challenged_def example_approved_def)
    have i: "incoming (example_world\<lparr>incoming := [Inr example_approved]\<rparr>) =
        Inr example_approved # []" by simp
    from plain [OF i n, of example_env] example_approved_approved hs show ?thesis
      by (simp add: example_approved_def)
  qed
  have c: "(\<exists>e. fst (?call example_env [Inr example_unavailable, Inr example_approved]) = Inl e) \<and>
      sent (snd (?call example_env [Inr example_unavailable, Inr example_approved])) =
        [?rq example_env ?h]"
  proof -
    have i: "incoming (example_world\<lparr>incoming := [Inr example_unavailable, Inr example_approved]\<rparr>) =
        Inr example_unavailable # [Inr example_approved]" by simp
    from plain [OF i example_unavailable_plain [THEN conjunct1], of example_env]
      example_unavailable_plain hs show ?thesis by simp
  qed
  have sg: "sent (snd (?call example_env (Inr example_challenge # rest))) =
        [?rq example_env ?h, ?rq example_env ?h2] \<and>
      (\<forall>final rest'. rest = Inr final # rest' \<longrightarrow>
         (\<not> approved final \<longrightarrow> (\<exists>e. fst (?call example_env (Inr example_challenge # rest)) = Inl e)) \<and>
         (approved final \<longrightarrow> fst (?call example_env (Inr example_challenge # rest)) = resp_json final)) \<and>
      (rest = [] \<or> (\<exists>e rest'. rest = Inl e # rest') \<longrightarrow>
         (\<exists>e. fst (?call example_env (Inr example_challenge # rest)) = Inl e))" for rest
  proof -
    have i: "incoming (example_world\<lparr>incoming := Inr example_challenge # rest\<rparr>) =
        Inr example_challenge # rest" by simp
    from signed [OF i example_challenge_challenged s [THEN conjunct1]
        s [THEN conjunct2, THEN conjunct1] s [THEN conjunct2, THEN conjunct2, THEN conjunct1]
        s [THEN conjunct2, THEN conjunct2, THEN conjunct2, THEN conjunct1]
        s [THEN conjunct2, THEN conjunct2, THEN conjunct2, THEN conjunct2, THEN conjunct1]]
    show ?thesis using hs s by simp
  qed
  have d: "fst (?call example_env [Inr example_challenge, Inr example_approved]) =
        Inr example_statement \<and>
      sent (snd (?call example_env [Inr example_challenge, Inr example_approved])) =
        [?rq example_env ?h, ?rq example_env ?h2]"
    using sg [of "[Inr example_approved]"] example_approved_approved
    by (simp add: example_approved_def)
  have e: "(\<exists>e. fst (?call example_env [Inr example_challenge, Inr example_unavailable]) = Inl e) \<and>
      sent (snd (?call example_env [Inr example_challenge, Inr example_unavailable])) =
        [?rq example_env ?h, ?rq example_env ?h2]"
    using sg [of "[Inr example_unavailable]"] example_unavailable_plain by simp
  have f: "(\<exists>e. fst (?call example_env [Inr example_challenge]) = Inl e) \<and>
      sent (snd (?call example_env [Inr example_challenge])) =
        [?rq example_env ?h, ?rq example_env ?h2]"
    using sg [of "[]"] by simp
  have g: "(\<exists>e. fst (?call example_env_no_token [Inr example_challenge, Inr example_approved]) =
         Inl e) \<and>
      sent (snd (?call example_env_no_token [Inr example_challenge, Inr example_approved])) =
        [?rq example_env_no_token ?h]"
  proof -
    have i: "incoming (example_world\<lparr>incoming := [Inr example_challenge, Inr example_approved]\<rparr>) =
        Inr example_challenge # [Inr example_approved]" by simp
    from unsigned [OF i example_challenge_challenged example_no_token_unsigned] hs
    show ?thesis by simp
  qed
  from a b c d e f g show ?thesis unfolding Let_def by simp
qed

text \<open>
  C6 as stated fails twice. A final response with status 200 and the 2FA result
  "APPROVED" whose body is not JSON makes the call raise, so the call does not raise
  only on the two conditions of the claim. And after a 403 with "REJECTED", a
  configuration without the private key makes the call raise before any second
  request: one request is sent, and nothing is signed.
\<close>

theorem wise_statement_raises_on_approved_response:
  "status_code example_not_json = 200 \<and>
   header_lookup (resp_headers example_not_json) ''X-2FA-Approval-Result'' = Inr ''APPROVED'' \<and>
   fst (wise_statement example_env (PInt 12) (PInt 64) (PStr ''GBP'')
          (PStr ''2024-01-01T09:30:00Z'') (PStr ''2024-01-08T09:30:00Z'')
          (example_world\<lparr>incoming := [Inr example_not_json]\<rparr>)) = Inl JSONDecodeError \<and>
   status_code example_challenge = 403 \<and>
   header_lookup (resp_headers example_challenge) ''X-2FA-Approval-Result'' = Inr ''REJECTED'' \<and>
   fst (wise_statement example_env_no_token (PInt 12) (PInt 64) (PStr ''GBP'')
          (PStr ''2024-01-01T09:30:00Z'') (PStr ''2024-01-08T09:30:00Z'')
          (example_world\<lparr>incoming := [Inr example_challenge, Inr example_approved]\<rparr>)) = Inl KeyError \<and>
   length (sent (snd (wise_statement example_env_no_token (PInt 12) (PInt 64) (PStr ''GBP'')
          (PStr ''2024-01-01T09:30:00Z'') (PStr ''2024-01-08T09:30:00Z'')
          (example_world\<lparr>incoming := [Inr example_challenge, Inr example_approved]\<rparr>)))) = 1"
  by (simp add: wise_statement_def requests_get_def needs_2fa_def statement_payload_def
      sign_challenge_def config_item_def Let_def str_lower_def lower_char_def
      example_not_json_def example_challenge_def example_world_def example_env_no_token_def
      example_env_def)

section \<open>The reconciliation: idempotence\<close>

lemma find_transaction_None:
  "find_transaction a p t y rows = None \<longleftrightarrow> (a, p, t, y) \<notin> row_key ` set rows"
  by (auto simp: find_transaction_def find_None_iff row_key_def image_iff)

text \<open>
  One entry against the rows the query sees: a CREDIT entry whose key matches one of
  them creates nothing; one whose key matches none creates exactly one row, with that
  key and the amount of the entry.
\<close>

lemma reconcile_one_matched:
  assumes "credit_key t = Inr (Some (p, l, y))" and "(a, p, l, y) \<in> row_key ` set visible"
  shows "reconcile_one a t visible = Inr None"
proof -
  from assms(2) have "find_transaction a p l y visible \<noteq> None"
    by (simp add: find_transaction_None)
  then obtain txn where "find_transaction a p l y visible = Some txn" by auto
  with assms(1) show ?thesis by (simp add: reconcile_one_def)
qed

lemma reconcile_one_unmatched:
  assumes "credit_key t = Inr (Some (p, l, y))" and "(a, p, l, y) \<notin> row_key ` set visible"
  shows "reconcile_one a t visible =
           ebind (py_getattr t ''amount'') (\<lambda>amount.
           ebind (py_getattr amount ''value'') (\<lambda>v.
           Inr (Some \<lparr> bt_account_id = a, bt_posted = p, bt_type = l, bt_amount = v,
                       bt_payee = y \<rparr>)))"
proof -
  from assms(2) have "find_transaction a p l y visible = None"
    by (simp add: find_transaction_None)
  with assms(1) show ?thesis by (simp add: reconcile_one_def)
qed

lemma reconcile_one_None:
  assumes "reconcile_one a t visible = Inr None"
  shows "credit_key t = Inr None \<or>
         (\<exists>p l y. credit_key t = Inr (Some (p, l, y)) \<and> (a, p, l, y) \<in> row_key ` set visible)"
proof -
  from assms obtain k where k: "credit_key t = Inr k"
    by (auto simp: reconcile_one_def ebind_eq_Inr)
  show ?thesis
  proof (cases k)
    case None
    with k show ?thesis by simp
  next
    case (Some plq)
    obtain p l y where plq: "plq = (p, l, y)" by (cases plq) auto
    have "(a, p, l, y) \<in> row_key ` set visible"
    proof (rule ccontr)
      assume "(a, p, l, y) \<notin> row_key ` set visible"
      from reconcile_one_unmatched [OF _ this, of t] k Some plq assms
      show False by (auto simp: ebind_eq_Inr Inr_eq_ebind)
    qed
    with k Some plq show ?thesis by simp
  qed
qed

lemma reconcile_one_Some:
  assumes "reconcile_one a t visible = Inr (Some r)"
  shows "\<exists>p l y. credit_key t = Inr (Some (p, l, y)) \<and> (a, p, l, y) \<notin> row_key ` set visible \<and>
           row_key r = (a, p, l, y)"
proof -
  from assms obtain k where k: "credit_key t = Inr k"
    by (auto simp: reconcile_one_def ebind_eq_Inr)
  from assms k obtain p l y where plq: "k = Some (p, l, y)"
    by (cases k) (auto simp: reconcile_one_def)
  have un: "(a, p, l, y) \<notin> row_key ` set visible"
  proof
    assume "(a, p, l, y) \<in> row_key ` set visible"
    from reconcile_one_matched [OF _ this, of t] k plq assms show False by simp
  qed
  from reconcile_one_unmatched [OF _ un, of t] k plq assms
  have "row_key r = (a, p, l, y)" by (auto simp: ebind_eq_Inr Inr_eq_ebind row_key_def)
  with k plq un show ?thesis by simp
qed

lemma reconcile_one_again:
  assumes "reconcile_one a t v1 = Inr r"
    and "set v1 \<subseteq> set v2" and "\<And>x. r = Some x \<Longrightarrow> x \<in> set v2"
  shows "reconcile_one a t v2 = Inr None"
proof (cases r)
  case None
  with assms(1) reconcile_one_None [of a t v1]
  consider "credit_key t = Inr None"
    | p l y where "credit_key t = Inr (Some (p, l, y))" "(a, p, l, y) \<in> row_key ` set v1"
    by auto
  then show ?thesis
  proof cases
    case 1
    then show ?thesis by (simp add: reconcile_one_def)
  next
    case 2
    with assms(2) have "(a, p, l, y) \<in> row_key ` set v2" by auto
    with 2(1) show ?thesis by (rule reconcile_one_matched)
  qed
next
  case (Some x)
  with assms(1) reconcile_one_Some [of a t v1 x] obtain p l y where
    k: "credit_key t = Inr (Some (p, l, y))" and rk: "row_key x = (a, p, l, y)" by auto
  from assms(3) Some have "x \<in> set v2" by simp
  with rk have "(a, p, l, y) \<in> row_key ` set v2" by (metis image_eqI)
  with k show ?thesis by (rule reconcile_one_matched)
qed

lemma reconcile_prefix:
  "reconcile f a ts table txns = Inr out \<Longrightarrow> \<exists>new. out = txns @ new"
proof (induction ts arbitrary: txns)
  case Nil
  then show ?case by simp
next
  case (Cons t ts)
  show ?case
  proof (cases "reconcile_one a t (table @ (if f then txns else []))")
    case (Inl e)
    with Cons.prems show ?thesis by simp
  next
    case (Inr r)
    show ?thesis
    proof (cases r)
      case None
      with Inr Cons.prems have "reconcile f a ts table txns = Inr out" by simp
      then show ?thesis by (rule Cons.IH)
    next
      case (Some x)
      with Inr Cons.prems have "reconcile f a ts table (txns @ [x]) = Inr out" by simp
      from Cons.IH [OF this] show ?thesis by auto
    qed
  qed
qed

lemma reconcile_again:
  assumes "reconcile f a ts table txns = Inr out"
    and "set table \<union> set out \<subseteq> set table2"
  shows "reconcile f2 a ts table2 acc = Inr acc"
  using assms
proof (induction ts arbitrary: txns)
  case Nil
  then show ?case by simp
next
  case (Cons t ts)
  let ?v1 = "table @ (if f then txns else [])"
  let ?v2 = "table2 @ (if f2 then acc else [])"
  from reconcile_prefix [OF Cons.prems(1)] obtain new where out: "out = txns @ new" by auto
  with Cons.prems(2) have sub: "set ?v1 \<subseteq> set ?v2" by auto
  show ?case
  proof (cases "reconcile_one a t ?v1")
    case (Inl e)
    with Cons.prems show ?thesis by simp
  next
    case (Inr r)
    show ?thesis
    proof (cases r)
      case None
      with Inr Cons.prems have rest: "reconcile f a ts table txns = Inr out" by simp
      from reconcile_one_again [OF Inr sub] None
      have "reconcile_one a t ?v2 = Inr None" by simp
      with Cons.IH [OF rest Cons.prems(2)] show ?thesis by simp
    next
      case (Some x)
      with Inr Cons.prems have rest: "reconcile f a ts table (txns @ [x]) = Inr out" by simp
      from reconcile_prefix [OF rest] have "x \<in> set out" by auto
      with Cons.prems(2) have "x \<in> set ?v2" by auto
      with reconcile_one_again [OF Inr sub] Some
      have "reconcile_one a t ?v2 = Inr None" by simp
      with Cons.IH [OF rest Cons.prems(2)] show ?thesis by simp
    qed
  qed
qed

lemma reconcile_fresh:
  assumes "reconcile f a ts table txns = Inr out"
  shows "\<exists>new. out = txns @ new \<and>
           (\<forall>r \<in> set new. row_key r \<notin> row_key ` set table) \<and>
           (f \<longrightarrow> distinct (map row_key new) \<and>
                  (\<forall>r \<in> set new. row_key r \<notin> row_key ` set txns))"
  using assms
proof (induction ts arbitrary: txns)
  case Nil
  then show ?case by simp
next
  case (Cons t ts)
  let ?v = "table @ (if f then txns else [])"
  show ?case
  proof (cases "reconcile_one a t ?v")
    case (Inl e)
    with Cons.prems show ?thesis by simp
  next
    case (Inr r)
    show ?thesis
    proof (cases r)
      case None
      with Inr Cons.prems have "reconcile f a ts table txns = Inr out" by simp
      then show ?thesis by (rule Cons.IH)
    next
      case (Some x)
      with Inr Cons.prems have "reconcile f a ts table (txns @ [x]) = Inr out" by simp
      from Cons.IH [OF this] obtain new where
        out: "out = (txns @ [x]) @ new" and
        fresh: "\<forall>r \<in> set new. row_key r \<notin> row_key ` set table" and
        dist: "f \<longrightarrow> distinct (map row_key new) \<and>
                 (\<forall>r \<in> set new. row_key r \<notin> row_key ` set (txns @ [x]))"
        by blast
      from reconcile_one_Some [of a t ?v x] Inr Some obtain p l y where
        "(a, p, l, y) \<notin> row_key ` set ?v" "row_key x = (a, p, l, y)" by blast
      then have x: "row_key x \<notin> row_key ` set ?v" by simp
      have 1: "out = txns @ (x # new)" using out by simp
      have 2: "\<forall>r \<in> set (x # new). row_key r \<notin> row_key ` set table"
        using fresh x by auto
      have 3: "f \<longrightarrow> distinct (map row_key (x # new)) \<and>
                 (\<forall>r \<in> set (x # new). row_key r \<notin> row_key ` set txns)"
      proof
        assume f
        with dist have d: "distinct (map row_key new)"
          and n: "\<forall>r \<in> set new. row_key r \<notin> row_key ` set (txns @ [x])" by auto
        from n have "row_key x \<notin> row_key ` set new" by force
        moreover from x \<open>f\<close> have "row_key x \<notin> row_key ` set txns" by auto
        moreover from n have "\<forall>r \<in> set new. row_key r \<notin> row_key ` set txns" by auto
        ultimately show "distinct (map row_key (x # new)) \<and>
                 (\<forall>r \<in> set (x # new). row_key r \<notin> row_key ` set txns)"
          using d by auto
      qed
      from 1 2 3 show ?thesis by blast
    qed
  qed
qed

lemma reconcile_covers:
  assumes "reconcile f a ts table txns = Inr out"
    and "t \<in> set ts" and "credit_key t = Inr (Some (p, l, y))"
  shows "(a, p, l, y) \<in> row_key ` set (table @ out)"
  using assms
proof (induction ts arbitrary: txns)
  case Nil
  then show ?case by simp
next
  case (Cons u ts)
  let ?v = "table @ (if f then txns else [])"
  from reconcile_prefix [OF Cons.prems(1)] obtain new where out: "out = txns @ new" by auto
  show ?case
  proof (cases "reconcile_one a u ?v")
    case (Inl e)
    with Cons.prems show ?thesis by simp
  next
    case (Inr r)
    show ?thesis
    proof (cases r)
      case None
      with Inr Cons.prems have rest: "reconcile f a ts table txns = Inr out" by simp
      show ?thesis
      proof (cases "t = u")
        case True
        with reconcile_one_None [of a u ?v] Inr None Cons.prems(3)
        have "(a, p, l, y) \<in> row_key ` set ?v" by auto
        with out show ?thesis by auto
      next
        case False
        with Cons.prems(2) have "t \<in> set ts" by simp
        from Cons.IH [OF rest this Cons.prems(3)] show ?thesis .
      qed
    next
      case (Some x)
      with Inr Cons.prems have rest: "reconcile f a ts table (txns @ [x]) = Inr out" by simp
      show ?thesis
      proof (cases "t = u")
        case True
        with reconcile_one_Some [of a u ?v x] Inr Some Cons.prems(3)
        have "row_key x = (a, p, l, y)" by auto
        moreover from reconcile_prefix [OF rest] have "x \<in> set out" by auto
        ultimately show ?thesis by force
      next
        case False
        with Cons.prems(2) have "t \<in> set ts" by simp
        from Cons.IH [OF rest this Cons.prems(3)] show ?thesis .
      qed
    qed
  qed
qed

lemma import_credits_rows:
  "\<exists>new. bank_transactions (snd (import_credits env account statement w)) =
            bank_transactions w @ new \<and>
      (\<forall>r \<in> set new. row_key r \<notin> row_key ` set (bank_transactions w)) \<and>
      (autoflush env \<longrightarrow> distinct (map row_key new)) \<and>
      (\<forall>entries t p l y.
         fst (import_credits env account statement w) = Inr ('''', 204) \<longrightarrow>
         statement_entries statement = Inr entries \<longrightarrow> t \<in> set entries \<longrightarrow>
         credit_key t = Inr (Some (p, l, y)) \<longrightarrow>
         (ba_id account, p, l, y) \<in> row_key ` set (bank_transactions w @ new)) \<and>
      bank_transactions
        (snd (import_credits env account statement
           (snd (import_credits env account statement w)))) =
      bank_transactions w @ new"
proof (cases "statement_entries statement")
  case (Inl e)
  then have "import_credits env account statement w = (Inl e, w)"
    by (simp add: import_credits_def)
  then show ?thesis by simp
next
  case entries: (Inr entries)
  let ?table = "bank_transactions w"
  show ?thesis
  proof (cases "reconcile (autoflush env) (ba_id account) entries ?table []")
    case (Inl e)
    with entries have "import_credits env account statement w = (Inl e, w)"
      by (simp add: import_credits_def)
    then show ?thesis by simp
  next
    case (Inr txns)
    let ?w1 = "log_msg INFO ''Imported %s transactions'' (w\<lparr>bank_transactions := ?table @ txns\<rparr>)"
    from entries Inr have one: "import_credits env account statement w = (Inr ('''', 204), ?w1)"
      by (simp add: import_credits_def)
    have t1: "bank_transactions ?w1 = ?table @ txns" by (simp add: log_msg_def)
    have "reconcile (autoflush env) (ba_id account) entries (?table @ txns) [] = Inr []"
      by (rule reconcile_again [OF Inr]) simp
    with entries t1 have two: "bank_transactions (snd (import_credits env account statement ?w1)) =
        ?table @ txns"
      by (simp add: import_credits_def log_msg_def)
    from reconcile_fresh [OF Inr] have
      fresh: "\<forall>r \<in> set txns. row_key r \<notin> row_key ` set ?table" and
      dist: "autoflush env \<longrightarrow> distinct (map row_key txns)" by auto
    have cover: "(ba_id account, p, l, y) \<in> row_key ` set (?table @ txns)"
      if "t \<in> set entries" "credit_key t = Inr (Some (p, l, y))" for t p l y
      using reconcile_covers [OF Inr that] .
    from entries have "\<And>es. statement_entries statement = Inr es \<Longrightarrow> es = entries" by simp
    with cover have cover': "\<forall>es t p l y.
         statement_entries statement = Inr es \<longrightarrow> t \<in> set es \<longrightarrow>
         credit_key t = Inr (Some (p, l, y)) \<longrightarrow>
         (ba_id account, p, l, y) \<in> row_key ` set (?table @ txns)"
      by blast
    show ?thesis
      unfolding one snd_conv fst_conv two t1
      using fresh dist cover' by blast
  qed
qed

lemma import_credits_again:
  "bank_transactions
     (snd (import_credits env account statement
        (snd (import_credits env account statement w)))) =
   bank_transactions (snd (import_credits env account statement w))"
  using import_credits_rows [of env account statement w] by auto

text \<open>
  C1. For every account, statement and state, running the reconciliation (the loop over
  the statement and the commit) a second time on the state the first run left gives the
  same BankTransaction table as the first run. The table after a run is the table before
  it followed by the new rows; no new row has the natural key of a row that was there
  before (an entry whose key matches an existing row creates nothing); with a session
  that flushes before a query, as by default, the new rows have pairwise different keys;
  and after a run that returned 204 every CREDIT entry of the statement has a row with
  its key (account, posted date, lower-cased detail type, payment reference), so an
  entry without a match got its one row.
\<close>

theorem import_credits_idempotent:
  "bank_transactions
     (snd (import_credits env account statement
        (snd (import_credits env account statement w)))) =
   bank_transactions (snd (import_credits env account statement w)) \<and>
   (\<exists>new. bank_transactions (snd (import_credits env account statement w)) =
            bank_transactions w @ new \<and>
      (\<forall>r \<in> set new. row_key r \<notin> row_key ` set (bank_transactions w)) \<and>
      (autoflush env \<longrightarrow> distinct (map row_key new)) \<and>
      (\<forall>entries t p l y.
         fst (import_credits env account statement w) = Inr ('''', 204) \<longrightarrow>
         statement_entries statement = Inr entries \<longrightarrow> t \<in> set entries \<longrightarrow>
         credit_key t = Inr (Some (p, l, y)) \<longrightarrow>
         (ba_id account, p, l, y) \<in> row_key ` set (bank_transactions w @ new)))"
proof -
  from import_credits_rows [of env account statement w] obtain new where
    n: "bank_transactions (snd (import_credits env account statement w)) =
            bank_transactions w @ new"
      "\<forall>r \<in> set new. row_key r \<notin> row_key ` set (bank_transactions w)"
      "autoflush env \<longrightarrow> distinct (map row_key new)"
      "\<forall>entries t p l y.
         fst (import_credits env account statement w) = Inr ('''', 204) \<longrightarrow>
         statement_entries statement = Inr entries \<longrightarrow> t \<in> set entries \<longrightarrow>
         credit_key t = Inr (Some (p, l, y)) \<longrightarrow>
         (ba_id account, p, l, y) \<in> row_key ` set (bank_transactions w @ new)"
    by blast
  from n import_credits_again [of env account statement w] show ?thesis by blast
qed

lemma example_import:
  "import_credits example_env example_account example_statement example_world =
     (Inr ('''', 204),
      example_world\<lparr>bank_transactions := [example_row],
                    logs := [(INFO, ''Imported %s transactions'')]\<rparr>)"
  by (simp add: import_credits_def statement_entries_def reconcile_one_def credit_key_def
      find_transaction_def py_eq_str_def str_lower_def lower_char_def log_msg_def
      example_env_def example_account_def example_statement_def example_credit_def
      example_debit_def example_world_def example_row_def)

theorem import_credits_idempotent_witness:
  "bank_transactions (snd (import_credits example_env example_account example_statement
      example_world)) = [example_row] \<and>
   bank_transactions (snd (import_credits example_env example_account example_statement
      (snd (import_credits example_env example_account example_statement example_world)))) =
     [example_row]"
  using import_credits_idempotent [of example_env example_account example_statement example_world]
  by (simp add: example_import)

lemma requests_get_tables:
  "requests_get rq w = (r, w') \<Longrightarrow>
     bank_accounts w' = bank_accounts w \<and> bank_transactions w' = bank_transactions w"
  by (auto simp: requests_get_def split: list.splits)

lemma wise_statement_tables:
  "bank_accounts (snd (wise_statement env p a c s e w)) = bank_accounts w \<and>
   bank_transactions (snd (wise_statement env p a c s e w)) = bank_transactions w"
  by (auto simp: wise_statement_def Let_def split: sum.splits bool.splits prod.splits
      dest!: requests_get_tables)

lemma fetch_statement_tables:
  "bank_accounts (snd (fetch_statement env p a c w)) = bank_accounts w \<and>
   bank_transactions (snd (fetch_statement env p a c w)) = bank_transactions w"
  by (simp add: fetch_statement_def Let_def wise_statement_tables)

lemma import_credits_table:
  assumes "bank_transactions w' = bank_transactions w"
  shows "bank_transactions (snd (import_credits env account statement w')) =
         bank_transactions (snd (import_credits env account statement w))"
  using assms
  by (simp add: import_credits_def log_msg_def split: sum.splits)

text \<open>
  The same at the level of the handler: a second delivery of the event to a state with
  the tables the first delivery left, and for which the provider returns the same
  statement (or fails the same way), leaves the BankTransaction table as it is.
\<close>

lemma credit_account_again:
  assumes acc: "bank_accounts w2 = bank_accounts w"
    and tab: "bank_transactions w2 = bank_transactions (snd (credit_account env p b c w))"
    and same: "fst (fetch_statement env p b c w2) = fst (fetch_statement env p b c w)"
  shows "bank_transactions (snd (credit_account env p b c w2)) = bank_transactions w2"
proof (cases "first_active_account env (bank_accounts w) b c")
  case (Inl e)
  with acc show ?thesis by (simp add: credit_account_def)
next
  case found: (Inr found)
  show ?thesis
  proof (cases found)
  case None
  with found acc show ?thesis by (simp add: credit_account_def log_msg_def)
next
  case (Some account)
  note Some = found [unfolded Some]
  obtain r w1 where f1: "fetch_statement env p b c w = (r, w1)"
    by (cases "fetch_statement env p b c w")
  obtain r2 w3 where f2: "fetch_statement env p b c w2 = (r2, w3)"
    by (cases "fetch_statement env p b c w2")
  from same f1 f2 have r2: "r2 = r" by simp
  from fetch_statement_tables [of env p b c w] f1
  have t1: "bank_transactions w1 = bank_transactions w" by simp
  from fetch_statement_tables [of env p b c w2] f2
  have t3: "bank_transactions w3 = bank_transactions w2" by simp
  show ?thesis
  proof (cases r)
    case (Inl e)
    with Some f1 t1 tab have "bank_transactions w2 = bank_transactions w"
      by (simp add: credit_account_def log_msg_def)
    with Some acc f2 r2 Inl t3 show ?thesis
      by (simp add: credit_account_def log_msg_def)
  next
    case (Inr statement)
    let ?w' = "snd (import_credits env account statement w1)"
    from Some f1 Inr tab have "bank_transactions w2 = bank_transactions ?w'"
      by (simp add: credit_account_def)
    with t3 have t: "bank_transactions w3 = bank_transactions ?w'" by simp
    from import_credits_table [OF t] import_credits_again [of env account statement w1]
    have "bank_transactions (snd (import_credits env account statement w3)) =
        bank_transactions ?w'" by simp
    with Some acc f2 r2 Inr t t3 show ?thesis
      by (simp add: credit_account_def)
  qed
qed
qed

lemma requests_get_incoming:
  assumes "incoming w' = incoming w"
  shows "fst (requests_get rq w') = fst (requests_get rq w) \<and>
         incoming (snd (requests_get rq w')) = incoming (snd (requests_get rq w))"
  using assms by (simp add: requests_get_def split: list.splits)

lemma wise_statement_incoming:
  assumes "incoming w' = incoming w"
  shows "fst (wise_statement env p a c s e w') = fst (wise_statement env p a c s e w)"
proof -
  let ?rq = "statement_request env p a c s e"
  obtain r1 w1 where g1: "requests_get (?rq (required_headers env)) w = (r1, w1)"
    by (cases "requests_get (?rq (required_headers env)) w")
  obtain r1' w1' where g1': "requests_get (?rq (required_headers env)) w' = (r1', w1')"
    by (cases "requests_get (?rq (required_headers env)) w'")
  from requests_get_incoming [OF assms, of "?rq (required_headers env)"] g1 g1'
  have r: "r1' = r1" and i: "incoming w1' = incoming w1" by simp_all
  have n: "fst (requests_get rq w1') = fst (requests_get rq w1)" for rq
    using requests_get_incoming [OF i] by simp
  show ?thesis
  proof (cases r1)
    case (Inl e)
    with g1 g1' r show ?thesis by (simp add: wise_statement_def Let_def)
  next
    case (Inr resp)
    show ?thesis
    proof (cases "needs_2fa resp")
      case (Inl e)
      with Inr g1 g1' r show ?thesis by (simp add: wise_statement_def Let_def)
    next
      case nf: (Inr b)
      show ?thesis
      proof (cases b)
        case False
        with nf Inr g1 g1' r show ?thesis by (simp add: wise_statement_def Let_def)
      next
        case True
        show ?thesis
        proof (cases "sign_challenge env resp (required_headers env)")
          case (Inl e)
          with True nf Inr g1 g1' r show ?thesis by (simp add: wise_statement_def Let_def)
        next
          case h2: (Inr headers2)
          obtain r2 w2 where g2: "requests_get (?rq headers2) w1 = (r2, w2)"
            by (cases "requests_get (?rq headers2) w1")
          obtain r2' w2' where g2': "requests_get (?rq headers2) w1' = (r2', w2')"
            by (cases "requests_get (?rq headers2) w1'")
          from n [of "?rq headers2"] g2 g2' have "r2' = r2" by simp
          with h2 True nf Inr g1 g1' r g2 g2' show ?thesis
            by (simp add: wise_statement_def Let_def split: sum.splits)
        qed
      qed
    qed
  qed
qed

lemma fetch_statement_logged:
  "fst (fetch_statement env p b c (log_msg level msg w)) = fst (fetch_statement env p b c w)"
proof -
  have i: "incoming (log_msg level msg w) = incoming w"
    and c: "clock (log_msg level msg w) = clock w"
    by (simp_all add: log_msg_def)
  show ?thesis
    unfolding fetch_statement_def Let_def c
    by (rule wise_statement_incoming [OF i])
qed

lemma wise_balance_credit_cases:
  "(\<exists>p b c. \<forall>v. wise_balance_credit env et ev v =
       credit_account env p b c
         (log_msg INFO ''Checking Wise details for borderless_account_id %s and currency %s'' v)) \<or>
   (\<forall>v. bank_transactions (snd (wise_balance_credit env et ev v)) = bank_transactions v)"
proof (cases "\<exists>p b c. resource_field ev ''profile_id'' = Inr p \<and> p \<noteq> PNone \<and>
    resource_field ev ''id'' = Inr b \<and> b \<noteq> PNone \<and> \<not> py_eq_zero b \<and>
    data_field ev ''currency'' = Inr c \<and> c \<noteq> PNone")
  case True
  then obtain p b c where "resource_field ev ''profile_id'' = Inr p" "p \<noteq> PNone"
    "resource_field ev ''id'' = Inr b" "b \<noteq> PNone" "\<not> py_eq_zero b"
    "data_field ev ''currency'' = Inr c" "c \<noteq> PNone" by blast
  then have "\<forall>v. wise_balance_credit env et ev v =
       credit_account env p b c
         (log_msg INFO ''Checking Wise details for borderless_account_id %s and currency %s'' v)"
    by (simp add: wise_balance_credit_def)
  then show ?thesis by blast
next
  case False
  have "bank_transactions (snd (wise_balance_credit env et ev v)) = bank_transactions v" for v
  proof (cases "resource_field ev ''profile_id''")
    case (Inl e)
    then show ?thesis by (simp add: wise_balance_credit_def)
  next
    case p: (Inr p)
    show ?thesis
    proof (cases "resource_field ev ''id''")
      case (Inl e)
      with p show ?thesis by (simp add: wise_balance_credit_def log_msg_def)
    next
      case b: (Inr b)
      show ?thesis
      proof (cases "data_field ev ''currency''")
        case (Inl e)
        with p b show ?thesis by (simp add: wise_balance_credit_def log_msg_def)
      next
        case c: (Inr c)
        with p b False have "p = PNone \<or> b = PNone \<or> py_eq_zero b \<or> c = PNone" by blast
        with p b c show ?thesis by (auto simp: wise_balance_credit_def log_msg_def)
      qed
    qed
  qed
  then show ?thesis by blast
qed

lemma wise_balance_credit_again:
  assumes acc: "bank_accounts w2 = bank_accounts w"
    and tab: "bank_transactions w2 = bank_transactions (snd (wise_balance_credit env et ev w))"
    and same: "\<And>p b c. fst (fetch_statement env p b c w2) = fst (fetch_statement env p b c w)"
  shows "bank_transactions (snd (wise_balance_credit env et ev w2)) = bank_transactions w2"
proof -
  let ?m = "''Checking Wise details for borderless_account_id %s and currency %s''"
  from wise_balance_credit_cases [of env et ev]
  consider p b c where
      "\<And>v. wise_balance_credit env et ev v = credit_account env p b c (log_msg INFO ?m v)"
    | "\<And>v. bank_transactions (snd (wise_balance_credit env et ev v)) = bank_transactions v"
    by blast
  then show ?thesis
  proof cases
    case h: 1
    have "bank_transactions (snd (credit_account env p b c (log_msg INFO ?m w2))) =
        bank_transactions (log_msg INFO ?m w2)"
    proof (rule credit_account_again)
      show "bank_accounts (log_msg INFO ?m w2) = bank_accounts (log_msg INFO ?m w)"
        using acc by (simp add: log_msg_def)
      show "bank_transactions (log_msg INFO ?m w2) =
          bank_transactions (snd (credit_account env p b c (log_msg INFO ?m w)))"
        using tab h by (simp add: log_msg_def)
      show "fst (fetch_statement env p b c (log_msg INFO ?m w2)) =
          fst (fetch_statement env p b c (log_msg INFO ?m w))"
        using same by (simp add: fetch_statement_logged)
    qed
    with h show ?thesis by (simp add: log_msg_def)
  next
    case 2
    then show ?thesis by simp
  qed
qed

end
